theory Spec2Isabelle
  imports Main "HOL-Library.AList"
begin

section \<open>Python values\<close>

text \<open>
  A Python \<open>str\<close> is a sequence of Unicode code points, so it is modelled as a list of
  natural numbers: \<open>len\<close>, slicing and \<open>str.isspace\<close> then count what Python counts.
  \<open>ustr\<close> embeds an Isabelle literal, one code point per character.
\<close>

type_synonym pystr = "nat list"

definition ustr :: "string \<Rightarrow> pystr" where
  "ustr s = map of_char s"

text \<open>
  The values that travel through the client: what \<open>response.json()\<close> can return
  (\<open>None\<close>, booleans, integers, floats, strings, lists, dictionaries), the
  \<open>timedelta\<close> of \<open>response.elapsed\<close> (in microseconds) and the \<open>HTTPError\<close>
  instance stored in an error record. A float is kept as its decimal text and is
  not interpreted. A dictionary is an association list in insertion order; item
  assignment is \<open>AList.update\<close>, which overwrites in place or appends.
\<close>

datatype pyval =
    PNone
  | PBool bool
  | PInt int
  | PFloat pystr
  | PStr pystr
  | PList "pyval list"
  | PDict "(pystr \<times> pyval) list"
  | PTimedelta int
  | PHTTPError pystr

type_synonym pydict = "(pystr \<times> pyval) list"

datatype pyexn =
    BrainServerError pyval
  | UsageError pystr
  | KeyError pystr
  | ValueError
  | IndexError
  | TypeError
  | JSONDecodeError
  | RecursionError
  | TransportError pystr
  | AADError pystr

text \<open>\<open>sub in s\<close> on strings.\<close>

fun startswith :: "pystr \<Rightarrow> pystr \<Rightarrow> bool" where
  "startswith s [] = True"
| "startswith [] (p # ps) = False"
| "startswith (c # cs) (p # ps) = (c = p \<and> startswith cs ps)"

fun contains :: "pystr \<Rightarrow> pystr \<Rightarrow> bool" where
  "contains [] sub = (sub = [])"
| "contains (c # cs) sub = (startswith (c # cs) sub \<or> contains cs sub)"

text \<open>\<open>str.isspace\<close> for one code point, and \<open>str.strip()\<close>.\<close>

definition isspace :: "nat \<Rightarrow> bool" where
  "isspace c \<longleftrightarrow>
     (9 \<le> c \<and> c \<le> 13) \<or> (28 \<le> c \<and> c \<le> 32) \<or> c = 133 \<or> c = 160 \<or> c = 5760
     \<or> (8192 \<le> c \<and> c \<le> 8202) \<or> c = 8232 \<or> c = 8233 \<or> c = 8239 \<or> c = 8287
     \<or> c = 12288"

definition strip :: "pystr \<Rightarrow> pystr" where
  "strip s = rev (dropWhile isspace (rev (dropWhile isspace s)))"

text \<open>\<open>str(n)\<close> for an integer: decimal digits, with a minus sign when negative.\<close>

function str_nat :: "nat \<Rightarrow> pystr" where
  "str_nat n = (if n < 10 then [48 + n] else str_nat (n div 10) @ [48 + n mod 10])"
  by pat_completeness auto
termination
  by (relation "measure id") auto

definition str_int :: "int \<Rightarrow> pystr" where
  "str_int i = (if i < 0 then 45 # str_nat (nat (- i)) else str_nat (nat i))"

section \<open>The response of the transport\<close>

text \<open>
  What the client reads of a \<open>requests.Response\<close>. \<open>json\<close> is the value of
  \<open>response.json()\<close>, \<open>None\<close> when that call raises \<open>ValueError\<close>; \<open>headers\<close>
  is the lookup of \<open>response.headers\<close>, \<open>None\<close> when indexing raises \<open>KeyError\<close>.
\<close>

record response =
  status_code :: int
  reason :: pystr
  resp_url :: pystr
  body_text :: pystr
  json :: "pyval option"
  headers :: "pystr \<Rightarrow> pystr option"
  elapsed :: int

text \<open>
  \<open>Response.raise_for_status\<close>: an \<open>HTTPError\<close> for a status in 400..599, with the
  message the library builds; \<open>Response.ok\<close>, also the truth value of a response, is
  that nothing is raised.
\<close>

definition raise_for_status :: "response \<Rightarrow> pystr option" where
  "raise_for_status r =
     (if 400 \<le> status_code r \<and> status_code r < 500 then
        Some (str_int (status_code r) @ ustr '' Client Error: '' @ reason r
              @ ustr '' for url: '' @ resp_url r)
      else if 500 \<le> status_code r \<and> status_code r < 600 then
        Some (str_int (status_code r) @ ustr '' Server Error: '' @ reason r
              @ ustr '' for url: '' @ resp_url r)
      else None)"

definition ok :: "response \<Rightarrow> bool" where
  "ok r \<longleftrightarrow> raise_for_status r = None"

text \<open>
  \<open>v[k]\<close> for a string key: the entry of a dictionary, \<open>KeyError\<close> when it is
  missing, \<open>TypeError\<close> on anything that is not a dictionary.
\<close>

definition subscript :: "pyval \<Rightarrow> pystr \<Rightarrow> pyexn + pyval" where
  "subscript v k =
     (case v of
        PDict d \<Rightarrow> (case map_of d k of None \<Rightarrow> Inl (KeyError k) | Some x \<Rightarrow> Inr x)
      | _ \<Rightarrow> Inl TypeError)"

text \<open>
  \<open>str(v)\<close> as \<open>str.format\<close> applies it: a string is itself, an \<open>HTTPError\<close>
  is its message; on every other value it is the built-in \<open>repr\<close>, which is
  taken as a parameter.
\<close>

definition py_str :: "(pyval \<Rightarrow> pystr) \<Rightarrow> pyval \<Rightarrow> pystr" where
  "py_str py_repr v = (case v of PStr s \<Rightarrow> s | PHTTPError m \<Rightarrow> m | _ \<Rightarrow> py_repr v)"

section \<open>Error classifier\<close>

text \<open>
  \<open>_handle_and_raise\<close> always raises; the model returns the exception it raises.
  Each \<open>try\<close> block is one step: a failing lookup takes the branch of its \<open>except\<close>,
  and the assignments made before the failure stay.
\<close>

definition error_dump_of :: "response \<Rightarrow> pyval" where
  "error_dump_of r =
     (case json r of
        Some v \<Rightarrow> v
      | None \<Rightarrow> PStr (ustr ''Unknown server error occurred''))"

definition error_field :: "response \<Rightarrow> pystr \<Rightarrow> pyexn + pyval" where
  "error_field r k =
     (case json r of
        None \<Rightarrow> Inl ValueError
      | Some v \<Rightarrow>
          (case subscript v (ustr ''error'') of
             Inl x \<Rightarrow> Inl x
           | Inr e \<Rightarrow> subscript e k))"

definition error_code_of :: "(pyval \<Rightarrow> pystr) \<Rightarrow> response \<Rightarrow> pystr" where
  "error_code_of py_repr r =
     (case error_field r (ustr ''code'') of
        Inr c \<Rightarrow> ustr ''Request failed with error code \"'' @ py_str py_repr c @ ustr ''\"''
      | Inl x \<Rightarrow> [])"

definition error_message_of :: "(pyval \<Rightarrow> pystr) \<Rightarrow> response \<Rightarrow> pystr \<Rightarrow> pystr" where
  "error_message_of py_repr r request_id =
     (let error_message =
            (case error_field r (ustr ''message'') of
               Inr m \<Rightarrow> ustr ''Error message: '' @ py_str py_repr m
             | Inl x \<Rightarrow> ustr ''Request failed.'');
          error_message = error_message @ ustr '' Request ID: '' @ request_id
      in case headers r (ustr ''SpanID'') of
           Some s \<Rightarrow> error_message @ ustr '' Span ID: '' @ s
         | None \<Rightarrow> error_message)"

definition handle_and_raise ::
  "(pyval \<Rightarrow> pystr) \<Rightarrow> response \<Rightarrow> pyval \<Rightarrow> pystr \<Rightarrow> pyexn" where
  "handle_and_raise py_repr r e request_id =
     (let error_dump = error_dump_of r;
          error_code = error_code_of py_repr r;
          error_message = error_message_of py_repr r request_id;
          error_response = [];
          error_response = AList.update (ustr ''errorDump'') error_dump error_response;
          error_response = AList.update (ustr ''status'') (PStr (ustr ''Failed'')) error_response;
          error_response = AList.update (ustr ''statusCode'') (PInt (status_code r)) error_response;
          error_response = AList.update (ustr ''elapsed'') (PTimedelta (elapsed r)) error_response;
          error_response = AList.update (ustr ''exception'') e error_response;
          error_response = AList.update (ustr ''errorCode'') (PStr error_code) error_response;
          error_response = AList.update (ustr ''errorMessage'') (PStr error_message) error_response;
          error_response =
            (case headers r (ustr ''x-ms-response-time'') of
               Some t \<Rightarrow> AList.update (ustr ''timeTaken'') (PStr t) error_response
             | None \<Rightarrow> error_response)
      in BrainServerError (PDict error_response))"

section \<open>Response normalizer\<close>

text \<open>
  \<open>_dict\<close>. The body is read only when the response is truthy (\<open>ok\<close>) and its
  text is not blank; a \<open>ValueError\<close> of \<open>response.json()\<close> leaves the empty
  dictionary. The status fields are assigned in order, and a missing timing header
  ends the block at its last assignment.
\<close>

definition body_dict :: "response \<Rightarrow> pydict" where
  "body_dict r =
     (if ok r \<and> body_text r \<noteq> [] \<and> strip (body_text r) \<noteq> [] then
        (case json r of
           Some (PDict d) \<Rightarrow> d
         | Some v \<Rightarrow> [(ustr ''value'', v)]
         | None \<Rightarrow> [])
      else [])"

definition dict :: "response \<Rightarrow> pystr \<Rightarrow> pydict" where
  "dict r request_id =
     (let response_dict = body_dict r;
          status = (if ok r then ustr ''Succeeded'' else ustr ''Failed'');
          response_dict = AList.update (ustr ''status'') (PStr status) response_dict;
          response_dict = AList.update (ustr ''statusCode'') (PInt (status_code r)) response_dict;
          response_dict = AList.update (ustr ''statusMessage'') (PStr []) response_dict;
          response_dict = AList.update (ustr ''elapsed'') (PTimedelta (elapsed r)) response_dict
      in case headers r (ustr ''x-ms-response-time'') of
           Some t \<Rightarrow> AList.update (ustr ''timeTaken'') (PStr t) response_dict
         | None \<Rightarrow> response_dict)"

section \<open>The world around the client\<close>

text \<open>
  A request as the session receives it: the session method called, the URL, the
  headers, the body (\<open>json=\<close> or \<open>data=\<close>), whether redirects are followed, and
  the timeout. \<open>session.get\<close> follows redirects unless told otherwise.
\<close>

datatype body = NoBody | JsonBody "pyval option" | RawBody "pyval option"

record request =
  req_method :: pystr
  req_url :: pystr
  req_headers :: "(pystr \<times> pystr) list"
  req_body :: body
  allow_redirects :: bool
  timeout :: int

datatype transport_result =
    Returns response
  | RaisesConnectionError
  | RaisesTimeout
  | RaisesOther pystr

datatype log_entry =
    Debug pystr
  | DebugHeaders pystr "(pystr \<times> pystr) list"

text \<open>
  What the client calls and cannot see into: \<open>uuid4\<close> (the n-th identifier drawn),
  the transport (its answer to the n-th request sent), the token provider
  \<open>AADClient(tenant_id).get_access_token()\<close>, the built-in \<open>repr\<close> and
  \<open>urllib.parse.urljoin\<close>; and two limits of the interpreter:
  \<open>sys.get_int_max_str_digits()\<close>, above which a conversion between an integer
  and its decimal text raises (0 when integers of any length are converted), and
  the number of nested arrays and objects that \<open>json.loads\<close> can enter before
  the recursion limit is reached.
\<close>

record env =
  uuid4 :: "nat \<Rightarrow> pystr"
  transport :: "nat \<Rightarrow> request \<Rightarrow> transport_result"
  aad_get_access_token :: "pystr option \<Rightarrow> pyexn + pystr"
  py_repr :: "pyval \<Rightarrow> pystr"
  urljoin :: "pystr \<Rightarrow> pystr \<Rightarrow> pystr"
  int_max_str_digits :: nat
  json_max_depth :: nat

text \<open>
  The \<open>BonsaiAPI\<close> object, together with what its calls leave behind: the number
  of identifiers drawn, the requests sent through its session, and the debug log.
\<close>

record bonsai_api =
  access_key :: pystr
  workspace_id :: pystr
  tenant_id :: "pystr option"
  api_url :: pystr
  gateway_url :: pystr
  user_info :: pystr
  uuids_drawn :: nat
  sent :: "request list"
  debug_log :: "log_entry list"

definition TIMEOUT :: int where
  "TIMEOUT = 300"

section \<open>Request dispatcher\<close>

definition get_headers :: "bonsai_api \<Rightarrow> (pystr \<times> pystr) list" where
  "get_headers self =
     [(ustr ''Authorization'', access_key self), (ustr ''User-Agent'', user_info self)]"

text \<open>\<open>d.update(other)\<close>: the entries of \<open>other\<close> assigned in order.\<close>

definition dict_update :: "('k \<times> 'v) list \<Rightarrow> ('k \<times> 'v) list \<Rightarrow> ('k \<times> 'v) list" where
  "dict_update d other = foldl (\<lambda>acc kv. AList.update (fst kv) (snd kv) acc) d other"

text \<open>The copy of the headers that is logged: \<open>token[-10:]\<close> behind three stars.\<close>

definition scrub :: "(pystr \<times> pystr) list \<Rightarrow> (pystr \<times> pystr) list" where
  "scrub headers_out =
     (case map_of headers_out (ustr ''Authorization'') of
        None \<Rightarrow> headers_out
      | Some token \<Rightarrow>
          if token \<noteq> [] then
            AList.update (ustr ''Authorization'')
              (ustr ''***'' @ drop (length token - 10) token) headers_out
          else headers_out)"

text \<open>The \<open>if\<close>/\<open>elif\<close> chain over the verb: the call made on the session.\<close>

definition session_call ::
  "pystr \<Rightarrow> pystr \<Rightarrow> (pystr \<times> pystr) list \<Rightarrow> pyval option \<Rightarrow> pyexn + request" where
  "session_call http_method url headers_out data =
     (if http_method = ustr ''GET'' then
        Inr \<lparr>req_method = ustr ''GET'', req_url = url, req_headers = headers_out,
             req_body = NoBody, allow_redirects = True, timeout = TIMEOUT\<rparr>
      else if http_method = ustr ''DELETE'' then
        Inr \<lparr>req_method = ustr ''DELETE'', req_url = url, req_headers = headers_out,
             req_body = NoBody, allow_redirects = False, timeout = TIMEOUT\<rparr>
      else if http_method = ustr ''PUT'' then
        Inr \<lparr>req_method = ustr ''PUT'', req_url = url, req_headers = headers_out,
             req_body = JsonBody data, allow_redirects = False, timeout = TIMEOUT\<rparr>
      else if http_method = ustr ''POST'' then
        Inr \<lparr>req_method = ustr ''POST'', req_url = url, req_headers = headers_out,
             req_body = JsonBody data, allow_redirects = False, timeout = TIMEOUT\<rparr>
      else if http_method = ustr ''PATCH'' then
        Inr \<lparr>req_method = ustr ''PATCH'', req_url = url, req_headers = headers_out,
             req_body = JsonBody data, allow_redirects = False, timeout = TIMEOUT\<rparr>
      else if http_method = ustr ''POST_RAW'' then
        Inr \<lparr>req_method = ustr ''POST'', req_url = url, req_headers = headers_out,
             req_body = RawBody data, allow_redirects = False, timeout = TIMEOUT\<rparr>
      else if http_method = ustr ''PUT_RAW'' then
        Inr \<lparr>req_method = ustr ''PUT'', req_url = url, req_headers = headers_out,
             req_body = RawBody data, allow_redirects = False, timeout = TIMEOUT\<rparr>
      else Inl (UsageError (ustr ''UNSUPPORTED HTTP REQUEST METHOD'')))"

text \<open>\<open>_raise_on_redirect\<close>: the message of the \<open>HTTPError\<close> it raises, if any.\<close>

definition raise_on_redirect :: "bonsai_api \<Rightarrow> response \<Rightarrow> pystr option" where
  "raise_on_redirect self r =
     (if status_code r = 301 then
        Some (str_int (status_code r) @ ustr '' Moved Permanently: Likely misconfigured url: ''
              @ api_url self)
      else None)"

text \<open>
  \<open>_try_http_request\<close>: one attempt. It returns the result record or the exception
  raised, and the object after the attempt. An exception of the transport other
  than a connection error or a timeout is not caught and leaves as it is.
\<close>

definition try_http_request ::
  "env \<Rightarrow> bonsai_api \<Rightarrow> pystr \<Rightarrow> pystr \<Rightarrow> pyval option \<Rightarrow> (pystr \<times> pystr) list option
   \<Rightarrow> (pyexn + pydict) \<times> bonsai_api" where
  "try_http_request env self http_method url data hdrs =
     (let self = self\<lparr>debug_log := debug_log self
                   @ [Debug (ustr ''Sending '' @ http_method @ ustr '' request to '' @ url)]\<rparr>;
          req_id = uuid4 env (uuids_drawn self);
          headers_out = get_headers self;
          headers_out = dict_update headers_out
                          [(ustr ''RequestId'', uuid4 env (uuids_drawn self + 1))];
          self = self\<lparr>uuids_drawn := uuids_drawn self + 2\<rparr>;
          scrubbed_headers = scrub headers_out;
          self = self\<lparr>debug_log := debug_log self
                   @ [DebugHeaders http_method scrubbed_headers]\<rparr>;
          headers_out =
            (case hdrs of
               None \<Rightarrow> headers_out
             | Some h \<Rightarrow> if h \<noteq> [] then dict_update headers_out h else headers_out)
      in case session_call http_method url headers_out data of
           Inl x \<Rightarrow> (Inl x, self)
         | Inr rq \<Rightarrow>
             (let answer = transport env (length (sent self)) rq;
                  self = self\<lparr>sent := sent self @ [rq]\<rparr>
              in case answer of
                   RaisesConnectionError \<Rightarrow>
                     (Inl (BrainServerError (PStr
                        (ustr ''Connection Error. Unable to connect to domain: '' @ url
                         @ ustr ''. Request ID: '' @ req_id))), self)
                 | RaisesTimeout \<Rightarrow>
                     (Inl (BrainServerError (PStr
                        (ustr ''Request to '' @ url @ ustr '' timed out. Current timeout is ''
                         @ str_int TIMEOUT
                         @ ustr '' seconds. Use the --timeout/-t option to adjust the timeout. Request ID: ''
                         @ req_id))), self)
                 | RaisesOther m \<Rightarrow> (Inl (TransportError m), self)
                 | Returns r \<Rightarrow>
                     (case raise_for_status r of
                        Some msg \<Rightarrow>
                          (Inl (handle_and_raise (py_repr env) r (PHTTPError msg) req_id), self)
                      | None \<Rightarrow>
                          (case raise_on_redirect self r of
                             Some msg \<Rightarrow>
                               (Inl (handle_and_raise (py_repr env) r (PHTTPError msg) req_id),
                                self)
                           | None \<Rightarrow>
                               (Inr (dict r req_id),
                                self\<lparr>debug_log := debug_log self
                                  @ [Debug (http_method @ ustr '' '' @ url @ ustr '' results:''
                                            @ [10] @ body_text r)]\<rparr>)))))"

text \<open>
  \<open>_http_request\<close>: the first attempt and, when the text of its
  \<open>BrainServerError\<close> names deprecated Bonsai credentials, a new access token and
  a second attempt. \<open>str(err)\<close> is \<open>str\<close> of the argument the error was built
  with. The \<open>debug\<close> flag only echoes the request to the console and \<open>output\<close>
  is unused; neither is modelled.
\<close>

definition http_request ::
  "env \<Rightarrow> bonsai_api \<Rightarrow> pystr \<Rightarrow> pystr \<Rightarrow> pyval option \<Rightarrow> (pystr \<times> pystr) list option
   \<Rightarrow> (pyexn + pydict) \<times> bonsai_api" where
  "http_request env self http_method url data hdrs =
     (let (result, self) = try_http_request env self http_method url data hdrs
      in case result of
           Inr response \<Rightarrow> (Inr response, self)
         | Inl x \<Rightarrow>
             (case x of
                BrainServerError err \<Rightarrow>
                  if contains (py_str (py_repr env) err) (ustr ''BonsaiAuthDeprecated'')
                     \<or> contains (py_str (py_repr env) err) (ustr ''InvalidUseOfAccessKey'')
                  then
                    (let self = self\<lparr>debug_log := debug_log self
                           @ [Debug (ustr ''Received BonsaiAuthDeprecated or InvalidUseOfAccessKey from service, switching to AAD authentication. Full error text: ''
                                     @ py_str (py_repr env) err)]\<rparr>
                     in case aad_get_access_token env (tenant_id self) of
                          Inl y \<Rightarrow> (Inl y, self)
                        | Inr token \<Rightarrow>
                            try_http_request env (self\<lparr>access_key := token\<rparr>)
                              http_method url data hdrs)
                  else (Inl x, self)
              | _ \<Rightarrow> (Inl x, self)))"

definition post :: "env \<Rightarrow> bonsai_api \<Rightarrow> pystr \<Rightarrow> pyval option \<Rightarrow> (pyexn + pydict) \<times> bonsai_api" where
  "post env self url data = http_request env self (ustr ''POST'') url data None"

definition patch :: "env \<Rightarrow> bonsai_api \<Rightarrow> pystr \<Rightarrow> pyval option \<Rightarrow> (pyexn + pydict) \<times> bonsai_api" where
  "patch env self url data = http_request env self (ustr ''PATCH'') url data None"


definition get :: "env \<Rightarrow> bonsai_api \<Rightarrow> pystr \<Rightarrow> (pyexn + pydict) \<times> bonsai_api" where
  "get env self url = http_request env self (ustr ''GET'') url None None"


section \<open>Formatting\<close>

text \<open>
  \<open>template.format(*args, **kwargs)\<close> for the templates of this module, whose
  replacement fields are \<open>{}\<close> (the next positional argument) or \<open>{name}\<close> (a
  keyword argument), with \<open>{{\<close> and \<open>}}\<close> for literal braces. The arguments
  are given already converted by \<open>str\<close>. A keyword that was not passed raises
  \<open>KeyError\<close>; keywords that the template does not use are ignored.
\<close>

fun format_text :: "pystr \<Rightarrow> pystr list \<Rightarrow> (pystr \<times> pystr) list \<Rightarrow> pystr \<Rightarrow> pyexn + pystr"
  and format_field ::
    "pystr \<Rightarrow> pystr \<Rightarrow> pystr list \<Rightarrow> (pystr \<times> pystr) list \<Rightarrow> pystr \<Rightarrow> pyexn + pystr" where
  "format_text [] args kwargs out = Inr out"
| "format_text (c # cs) args kwargs out =
     (if c = 123 then
        (case cs of
           [] \<Rightarrow> Inl ValueError
         | d # ds \<Rightarrow>
             if d = 123 then format_text ds args kwargs (out @ [123])
             else format_field [] cs args kwargs out)
      else if c = 125 then
        (case cs of
           [] \<Rightarrow> Inl ValueError
         | d # ds \<Rightarrow>
             if d = 125 then format_text ds args kwargs (out @ [125])
             else Inl ValueError)
      else format_text cs args kwargs (out @ [c]))"
| "format_field name [] args kwargs out =
     Inl ValueError"
| "format_field name (c # cs) args kwargs out =
     (if c = 125 then
        (if name = [] then
           (case args of
              [] \<Rightarrow> Inl IndexError
            | a # as \<Rightarrow> format_text cs as kwargs (out @ a))
         else
           (case map_of kwargs name of
              None \<Rightarrow> Inl (KeyError name)
            | Some v \<Rightarrow> format_text cs args kwargs (out @ v)))
      else format_field (name @ [c]) cs args kwargs out)"

definition format :: "pystr \<Rightarrow> pystr list \<Rightarrow> (pystr \<times> pystr) list \<Rightarrow> pyexn + pystr" where
  "format template args kwargs = format_text template args kwargs []"

text \<open>
  An integer in a replacement field is converted as \<open>str\<close> converts it, which
  raises \<open>ValueError\<close> when it has more digits than the interpreter converts.
\<close>

definition format_int :: "env \<Rightarrow> int \<Rightarrow> pyexn + pystr" where
  "format_int env i =
     (let digits = str_nat (nat \<bar>i\<bar>)
      in if 640 < length digits \<and> 0 < int_max_str_digits env
            \<and> int_max_str_digits env < length digits
         then Inl ValueError
         else Inr (str_int i))"

section \<open>URL path templates\<close>

definition LIST_BRAINS_URL_PATH_TEMPLATE :: pystr where
  "LIST_BRAINS_URL_PATH_TEMPLATE =
     ustr ''/v2/workspaces/{workspacename}/brains''"

















definition CREATE_SIM_COLLECTION_URL_PATH_TEMPLATE :: pystr where
  "CREATE_SIM_COLLECTION_URL_PATH_TEMPLATE =
     ustr ''/v2/workspaces/{workspacename}/simulatorpackages/{simulatorpackagename}/simulatorcollections''"

definition UPDATE_SIM_COLLECTION_URL_PATH_TEMPLATE :: pystr where
  "UPDATE_SIM_COLLECTION_URL_PATH_TEMPLATE =
     ustr ''/v2/workspaces/{workspacename}/simulatorpackages/{simulatorpackagename}/simulatorcollections/{collectionid}''"
















definition PATCH_SIM_SESSIONS_URL_PATH_TEMPLATE :: pystr where
  "PATCH_SIM_SESSIONS_URL_PATH_TEMPLATE =
     ustr ''/v2/workspaces/{workspacename}/simulatorSessions/{sessionid}''"

section \<open>The JSON decoder\<close>

text \<open>
  \<open>json.loads\<close> of the standard library, as CPython's decoder computes it: the
  value decoded, or the exception raised. The text is cut into tokens (string and
  number literals, the constants, the six punctuation marks; blanks between tokens
  are skipped) up to the first place where no token can be read, and the tokens
  are read in order by a machine that keeps the open arrays and objects on a
  stack, so that the first failure met from left to right decides the exception:
  \<^item> \<open>JSONDecodeError\<close> where the text is not JSON;
  \<^item> \<open>ValueError\<close> where a value is expected and an integer has more digits
    than \<open>int\<close> converts (more than 640 and more than the limit, when there is
    a limit);
  \<^item> \<open>RecursionError\<close> where an array or object opens and as many are open
    already as the decoder can enter.

  Strings are decoded strictly: no raw control character, the escapes of the
  \<open>BACKSLASH\<close> table, and \<open>\uXXXX\<close> with surrogate pairs joined. A repeated
  key keeps its first position and takes the last value, as \<open>dict(pairs)\<close> does.
  Running out of memory is not modelled.
\<close>

datatype token =
    TLBrace | TRBrace | TLBracket | TRBracket | TColon | TComma | TValue pyval
  | TTooLong | TBad

definition hexdigit :: "nat \<Rightarrow> nat option" where
  "hexdigit c =
     (if 48 \<le> c \<and> c \<le> 57 then Some (c - 48)
      else if 65 \<le> c \<and> c \<le> 70 then Some (c - 55)
      else if 97 \<le> c \<and> c \<le> 102 then Some (c - 87)
      else None)"

definition decode_uXXXX :: "pystr \<Rightarrow> nat option" where
  "decode_uXXXX s =
     (if length s < 4 then None
      else (case (hexdigit (s ! 0), hexdigit (s ! 1), hexdigit (s ! 2), hexdigit (s ! 3)) of
              (Some a, Some b, Some c, Some d) \<Rightarrow> Some (((a * 16 + b) * 16 + c) * 16 + d)
            | _ \<Rightarrow> None))"

text \<open>
  The text after \<open>\u\<close>: the code point it stands for and how many characters of
  the text it takes (four, or ten when a low surrogate escape follows a high one).
\<close>

definition unicode_escape :: "pystr \<Rightarrow> (nat \<times> nat) option" where
  "unicode_escape s =
     (case decode_uXXXX s of
        None \<Rightarrow> None
      | Some uni \<Rightarrow>
          if 55296 \<le> uni \<and> uni \<le> 56319 \<and> startswith (drop 4 s) [92, 117] then
            (case decode_uXXXX (drop 6 s) of
               None \<Rightarrow> None
             | Some uni2 \<Rightarrow>
                 if 56320 \<le> uni2 \<and> uni2 \<le> 57343 then
                   Some (65536 + (uni - 55296) * 1024 + (uni2 - 56320), 10)
                 else Some (uni, 4))
          else Some (uni, 4))"

definition backslash :: "nat \<Rightarrow> nat option" where
  "backslash e =
     (if e = 34 then Some 34 else if e = 92 then Some 92 else if e = 47 then Some 47
      else if e = 98 then Some 8 else if e = 102 then Some 12 else if e = 110 then Some 10
      else if e = 114 then Some 13 else if e = 116 then Some 9 else None)"

definition isdigit :: "nat \<Rightarrow> bool" where
  "isdigit c \<longleftrightarrow> 48 \<le> c \<and> c \<le> 57"

definition int_of_digits :: "pystr \<Rightarrow> int" where
  "int_of_digits ds = foldl (\<lambda>a d. 10 * a + int (d - 48)) 0 ds"

text \<open>
  The number at the head of the text, by the decoder's pattern
  \<open>(-?(?:0|[1-9]\d*))(\.\d+)?([eE][-+]?\d+)?\<close>: its token and its length. An
  integer of too many digits is the token \<open>TTooLong\<close>.
\<close>

definition match_number :: "nat \<Rightarrow> pystr \<Rightarrow> (token \<times> nat) option" where
  "match_number max_digits s =
     (let sign = (if startswith s [45] then [45] else []);
          s1 = drop (length sign) s;
          intpart = (case s1 of
                       [] \<Rightarrow> []
                     | d # t \<Rightarrow> if d = 48 then [48]
                                else if isdigit d then d # takeWhile isdigit t else []);
          s2 = drop (length intpart) s1;
          frac = (case s2 of
                    [] \<Rightarrow> []
                  | p # t \<Rightarrow> if p = 46 \<and> takeWhile isdigit t \<noteq> []
                             then p # takeWhile isdigit t else []);
          s3 = drop (length frac) s2;
          expo = (case s3 of
                    [] \<Rightarrow> []
                  | e # t \<Rightarrow>
                      if e = 101 \<or> e = 69 then
                        (let sg = (case t of
                                     [] \<Rightarrow> []
                                   | x # t' \<Rightarrow> if x = 43 \<or> x = 45 then [x] else []);
                             ds = takeWhile isdigit (drop (length sg) t)
                         in if ds \<noteq> [] then e # sg @ ds else [])
                      else [])
      in if intpart = [] then None
         else if frac = [] \<and> expo = [] then
           (if 640 < length intpart \<and> 0 < max_digits \<and> max_digits < length intpart then
              Some (TTooLong, length sign + length intpart)
            else
              Some (TValue (PInt ((if sign = [] then 1 else - 1) * int_of_digits intpart)),
                    length sign + length intpart))
         else Some (TValue (PFloat (sign @ intpart @ frac @ expo)),
                    length sign + length intpart + length frac + length expo))"

text \<open>A value that is neither a string nor a container: its token and its length.\<close>

definition scan_literal :: "nat \<Rightarrow> pystr \<Rightarrow> (token \<times> nat) option" where
  "scan_literal max_digits s =
     (if startswith s (ustr ''null'') then Some (TValue PNone, 4)
      else if startswith s (ustr ''true'') then Some (TValue (PBool True), 4)
      else if startswith s (ustr ''false'') then Some (TValue (PBool False), 5)
      else if startswith s (ustr ''NaN'') then Some (TValue (PFloat (ustr ''NaN'')), 3)
      else if startswith s (ustr ''Infinity'') then
        Some (TValue (PFloat (ustr ''Infinity'')), 8)
      else if startswith s (ustr ''-Infinity'') then
        Some (TValue (PFloat (ustr ''-Infinity'')), 9)
      else match_number max_digits s)"

text \<open>
  The tokens of a text; \<open>TBad\<close> ends the list where no token can be read.
  \<open>lexstring\<close> reads on inside a string, with the characters decoded so far.
\<close>

fun lex :: "nat \<Rightarrow> pystr \<Rightarrow> token list"
  and lexstring :: "nat \<Rightarrow> pystr \<Rightarrow> pystr \<Rightarrow> token list" where
  "lex max_digits [] = []"
| "lex max_digits (c # cs) =
     (if c = 32 \<or> c = 9 \<or> c = 10 \<or> c = 13 then lex max_digits cs
      else if c = 123 then TLBrace # lex max_digits cs
      else if c = 125 then TRBrace # lex max_digits cs
      else if c = 91 then TLBracket # lex max_digits cs
      else if c = 93 then TRBracket # lex max_digits cs
      else if c = 58 then TColon # lex max_digits cs
      else if c = 44 then TComma # lex max_digits cs
      else if c = 34 then lexstring max_digits [] cs
      else (case scan_literal max_digits (c # cs) of
              None \<Rightarrow> [TBad]
            | Some (t, n) \<Rightarrow> t # lex max_digits (drop (n - 1) cs)))"
| "lexstring max_digits acc [] = [TBad]"
| "lexstring max_digits acc (c # cs) =
     (if c = 34 then TValue (PStr acc) # lex max_digits cs
      else if c = 92 then
        (case cs of
           [] \<Rightarrow> [TBad]
         | e # es \<Rightarrow>
             if e = 117 then
               (case unicode_escape es of
                  None \<Rightarrow> [TBad]
                | Some (ch, n) \<Rightarrow> lexstring max_digits (acc @ [ch]) (drop n es))
             else
               (case backslash e of
                  None \<Rightarrow> [TBad]
                | Some ch \<Rightarrow> lexstring max_digits (acc @ [ch]) es))
      else if c < 32 then [TBad]
      else lexstring max_digits (acc @ [c]) cs)"

text \<open>
  The machine: what it expects next, and the arrays and objects that are open.
  A finished value closes into the innermost open array or object.
\<close>

datatype frame = InArray "pyval list" | InObject pydict "pystr option"

datatype expect =
    Value | ValueOrClose | KeyOrClose | Key | Colon | CommaOrClose | Finished pyval
  | Failed pyexn

definition complete :: "pyval \<Rightarrow> frame list \<Rightarrow> expect \<times> frame list" where
  "complete v stack =
     (case stack of
        [] \<Rightarrow> (Finished v, [])
      | InArray vs # st \<Rightarrow> (CommaOrClose, InArray (vs @ [v]) # st)
      | InObject d None # st \<Rightarrow> (Failed JSONDecodeError, [])
      | InObject d (Some k) # st \<Rightarrow> (CommaOrClose, InObject (AList.update k v d) None # st))"

fun open_value :: "nat \<Rightarrow> token \<Rightarrow> frame list \<Rightarrow> expect \<times> frame list" where
  "open_value max_depth (TValue v) stack = complete v stack"
| "open_value max_depth TLBracket stack =
     (if max_depth \<le> length stack then (Failed RecursionError, [])
      else (ValueOrClose, InArray [] # stack))"
| "open_value max_depth TLBrace stack =
     (if max_depth \<le> length stack then (Failed RecursionError, [])
      else (KeyOrClose, InObject [] None # stack))"
| "open_value max_depth TTooLong stack = (Failed ValueError, [])"
| "open_value max_depth t stack = (Failed JSONDecodeError, [])"

definition close_array :: "frame list \<Rightarrow> expect \<times> frame list" where
  "close_array stack =
     (case stack of
        InArray vs # st \<Rightarrow> complete (PList vs) st
      | _ \<Rightarrow> (Failed JSONDecodeError, []))"

definition close_object :: "frame list \<Rightarrow> expect \<times> frame list" where
  "close_object stack =
     (case stack of
        InObject d None # st \<Rightarrow> complete (PDict d) st
      | _ \<Rightarrow> (Failed JSONDecodeError, []))"

definition read_key :: "token \<Rightarrow> frame list \<Rightarrow> expect \<times> frame list" where
  "read_key t stack =
     (case t of
        TValue (PStr k) \<Rightarrow>
          (case stack of
             InObject d None # st \<Rightarrow> (Colon, InObject d (Some k) # st)
           | _ \<Rightarrow> (Failed JSONDecodeError, []))
      | _ \<Rightarrow> (Failed JSONDecodeError, []))"

fun parse_step :: "nat \<Rightarrow> expect \<times> frame list \<Rightarrow> token \<Rightarrow> expect \<times> frame list" where
  "parse_step max_depth (Value, stack) t = open_value max_depth t stack"
| "parse_step max_depth (ValueOrClose, stack) t =
     (if t = TRBracket then close_array stack else open_value max_depth t stack)"
| "parse_step max_depth (KeyOrClose, stack) t =
     (if t = TRBrace then close_object stack else read_key t stack)"
| "parse_step max_depth (Key, stack) t = read_key t stack"
| "parse_step max_depth (Colon, stack) t =
     (if t = TColon then (Value, stack) else (Failed JSONDecodeError, []))"
| "parse_step max_depth (CommaOrClose, stack) t =
     (if t = TComma then
        (case stack of
           InArray vs # st \<Rightarrow> (Value, stack)
         | InObject d None # st \<Rightarrow> (Key, stack)
         | _ \<Rightarrow> (Failed JSONDecodeError, []))
      else if t = TRBracket then close_array stack
      else if t = TRBrace then close_object stack
      else (Failed JSONDecodeError, []))"
| "parse_step max_depth (Finished v, stack) t = (Failed JSONDecodeError, [])"
| "parse_step max_depth (Failed x, stack) t = (Failed x, [])"

definition json_loads :: "env \<Rightarrow> pystr \<Rightarrow> pyexn + pyval" where
  "json_loads env s =
     (case foldl (parse_step (json_max_depth env)) (Value, [])
             (lex (int_max_str_digits env) s) of
        (Finished v, st) \<Rightarrow> Inr v
      | (Failed x, st) \<Rightarrow> Inl x
      | _ \<Rightarrow> Inl JSONDecodeError)"

section \<open>Resource methods\<close>

text \<open>
  Every method builds its path from a template, joins it to the API URL (the
  gateway URL for simulator sessions) and calls the dispatcher with its verb and
  payload. The debug lines of the methods are left out: they format constant
  templates and cannot raise.
\<close>

text \<open>\<open>workspace if workspace else self._workspace_id\<close>.\<close>

definition workspacename :: "bonsai_api \<Rightarrow> pystr option \<Rightarrow> pystr" where
  "workspacename self workspace =
     (case workspace of
        None \<Rightarrow> workspace_id self
      | Some w \<Rightarrow> if w \<noteq> [] then w else workspace_id self)"

text \<open>An optional string as a payload value.\<close>

definition opt_str :: "pystr option \<Rightarrow> pyval" where
  "opt_str x = (case x of None \<Rightarrow> PNone | Some s \<Rightarrow> PStr s)"

text \<open>
  The \<open>purpose\<close> object of \<open>create_sim_collection\<close> and \<open>patch_sim_session\<close>:
  the five values are formatted into a JSON text, which is then decoded.
\<close>

definition PURPOSE_TEMPLATE :: pystr where
  "PURPOSE_TEMPLATE =
     ustr ''{{\"action\": \"{}\", \"target\": {{\"workspaceName\": \"{}\", \"brainName\": \"{}\", \"brainVersion\": \"{}\", \"conceptName\": \"{}\"  }} }}''"

definition json_loads_purpose ::
  "env \<Rightarrow> pystr \<Rightarrow> pystr \<Rightarrow> pystr \<Rightarrow> int \<Rightarrow> pystr \<Rightarrow> pyexn + pyval" where
  "json_loads_purpose env purpose_action workspace brain_name brain_version concept_name =
     (case format_int env brain_version of
        Inl x \<Rightarrow> Inl x
      | Inr version \<Rightarrow>
          (case format PURPOSE_TEMPLATE
                  [purpose_action, workspace, brain_name, version, concept_name] [] of
             Inl x \<Rightarrow> Inl x
           | Inr literal \<Rightarrow> json_loads env literal))"

definition list_brains ::
  "env \<Rightarrow> bonsai_api \<Rightarrow> pystr option \<Rightarrow>
   (pyexn + pydict) \<times> bonsai_api" where
  "list_brains env self workspace =
     (case format LIST_BRAINS_URL_PATH_TEMPLATE []
           [(ustr ''workspacename'', workspacename self workspace)] of
        Inl x \<Rightarrow> (Inl x, self)
      | Inr url_path \<Rightarrow>
          (let url = urljoin env (api_url self) url_path
           in get env self url))"
















definition create_sim_collection ::
  "env \<Rightarrow> bonsai_api \<Rightarrow> pystr \<Rightarrow> pystr \<Rightarrow>
   int \<Rightarrow> pystr \<Rightarrow> pystr \<Rightarrow> pystr option \<Rightarrow>
   pystr option \<Rightarrow> pystr option \<Rightarrow> pystr option \<Rightarrow>
   pystr option \<Rightarrow> pystr option \<Rightarrow> pystr option \<Rightarrow>
   pystr option \<Rightarrow> pystr option \<Rightarrow>
   (pyexn + pydict) \<times> bonsai_api" where
  "create_sim_collection env self packagename brain_name brain_version concept_name
  purpose_action description cores_per_instance memory_in_gb_per_instance
  start_instance_count min_instance_count max_instance_count auto_scaling auto_termination
  workspace =
     (case format CREATE_SIM_COLLECTION_URL_PATH_TEMPLATE []
           [(ustr ''workspacename'', workspacename self workspace),
            (ustr ''simulatorpackagename'', packagename)] of
        Inl x \<Rightarrow> (Inl x, self)
      | Inr url_path \<Rightarrow>
          (let url = urljoin env (api_url self) url_path
           in case json_loads_purpose env purpose_action (workspace_id self) brain_name
                     brain_version concept_name of
                Inl x \<Rightarrow> (Inl x, self)
              | Inr purpose \<Rightarrow>
                  (let data =
                         [(ustr ''purpose'', purpose),
                          (ustr ''description'', opt_str description),
                          (ustr ''resourceGroupName'', PStr []),
                          (ustr ''Subscription'', PStr []),
                          (ustr ''coresPerInstance'', opt_str cores_per_instance),
                          (ustr ''memInGBPerInstance'', opt_str memory_in_gb_per_instance),
                          (ustr ''startInstanceCount'', opt_str start_instance_count),
                          (ustr ''minInstanceCount'', opt_str min_instance_count),
                          (ustr ''maxInstanceCount'', opt_str max_instance_count),
                          (ustr ''autoScaling'', opt_str auto_scaling),
                          (ustr ''autoTermination'', opt_str auto_termination)]
                   in post env self url (Some (PDict data)))))"





definition update_sim_collection ::
  "env \<Rightarrow> bonsai_api \<Rightarrow> pystr \<Rightarrow> pystr \<Rightarrow>
   pystr option \<Rightarrow> pystr option \<Rightarrow>
   (pyexn + pydict) \<times> bonsai_api" where
  "update_sim_collection env self sim_package_name collection_id description workspace =
     (case format UPDATE_SIM_COLLECTION_URL_PATH_TEMPLATE []
           [(ustr ''workspacename'', workspacename self workspace),
            (ustr ''simulatorpackageName'', sim_package_name),
            (ustr ''collectionid'', collection_id)] of
        Inl x \<Rightarrow> (Inl x, self)
      | Inr url_path \<Rightarrow>
          (let url = urljoin env (api_url self) url_path;
               data =
                  [(ustr ''description'', opt_str description)]
           in patch env self url (Some (PDict data))))"














definition patch_sim_session ::
  "env \<Rightarrow> bonsai_api \<Rightarrow> pystr \<Rightarrow> pystr \<Rightarrow>
   int \<Rightarrow> pystr \<Rightarrow> pystr \<Rightarrow> pystr option \<Rightarrow>
   (pyexn + pydict) \<times> bonsai_api" where
  "patch_sim_session env self session_id brain_name version purpose_action concept_name
  workspace =
     (case format PATCH_SIM_SESSIONS_URL_PATH_TEMPLATE []
           [(ustr ''workspacename'', workspacename self workspace),
            (ustr ''sessionid'', session_id)] of
        Inl x \<Rightarrow> (Inl x, self)
      | Inr url_path \<Rightarrow>
          (let url = urljoin env (gateway_url self) url_path
           in case json_loads_purpose env purpose_action (workspace_id self) brain_name version concept_name of
                Inl x \<Rightarrow> (Inl x, self)
              | Inr purpose \<Rightarrow>
                  (let data =
                         [(ustr ''purposeOperation'', PStr (ustr ''SetValue'')),
                          (ustr ''purpose'', purpose)]
                   in patch env self url (Some (PDict data)))))"

section \<open>Reference values and measures\<close>

text \<open>
  The status fields as the specification lists them for a successful response:
  \<open>status\<close> "Succeeded", \<open>statusCode\<close>, an empty \<open>statusMessage\<close>, \<open>elapsed\<close>, and
  \<open>timeTaken\<close> when the timing header is present.
\<close>

definition spec_status_keys :: "pystr set" where
  "spec_status_keys =
     {ustr ''status'', ustr ''statusCode'', ustr ''statusMessage'', ustr ''elapsed'',
      ustr ''timeTaken''}"

definition spec_status_fields :: "response \<Rightarrow> pydict" where
  "spec_status_fields r =
     [(ustr ''status'', PStr (ustr ''Succeeded'')),
      (ustr ''statusCode'', PInt (status_code r)),
      (ustr ''statusMessage'', PStr []),
      (ustr ''elapsed'', PTimedelta (elapsed r))]
     @ (case headers r (ustr ''x-ms-response-time'') of
          Some t \<Rightarrow> [(ustr ''timeTaken'', PStr t)]
        | None \<Rightarrow> [])"

text \<open>
  Responses, an environment and a client for the examples. The identifiers drawn
  are \<open>uuid-0\<close>, \<open>uuid-1\<close>, ...; \<open>repr\<close> lists the strings of a value; \<open>urljoin\<close>
  appends an absolute path to a base URL without a path; integers have up to 4300
  digits and the decoder can enter 900 nested arrays and objects.
\<close>

definition example_response ::
  "int \<Rightarrow> pystr \<Rightarrow> pyval option \<Rightarrow> (pystr \<times> pystr) list \<Rightarrow> response" where
  "example_response code body parsed hdrs =
     \<lparr>status_code = code, reason = ustr ''reason'', resp_url = ustr ''https://api.example/v2'',
      body_text = body, json = parsed, headers = map_of hdrs, elapsed = 1500\<rparr>"

fun example_repr :: "pyval \<Rightarrow> pystr" where
  "example_repr (PStr s) = s"
| "example_repr (PList vs) = concat (map example_repr vs)"
| "example_repr (PDict d) = concat (map (\<lambda>kv. fst kv @ example_repr (snd kv)) d)"
| "example_repr (PHTTPError m) = m"
| "example_repr v = []"

definition example_env :: "(nat \<Rightarrow> request \<Rightarrow> transport_result) \<Rightarrow> env" where
  "example_env answers =
     \<lparr>uuid4 = (\<lambda>n. ustr ''uuid-'' @ str_nat n),
      transport = answers,
      aad_get_access_token = (\<lambda>tenant. Inr (ustr ''aad-token'')),
      py_repr = example_repr,
      urljoin = (\<lambda>base path. base @ path),
      int_max_str_digits = 4300,
      json_max_depth = 900\<rparr>"

definition example_api :: bonsai_api where
  "example_api =
     \<lparr>access_key = ustr ''0123456789abcdefghij'',
      workspace_id = ustr ''acme'',
      tenant_id = None,
      api_url = ustr ''https://api.example'',
      gateway_url = ustr ''https://gateway.example'',
      user_info = ustr ''bonsai-cli'',
      uuids_drawn = 0,
      sent = [],
      debug_log = []\<rparr>"

definition unreachable :: "nat \<Rightarrow> request \<Rightarrow> transport_result" where
  "unreachable n rq = RaisesConnectionError"

definition moved :: "nat \<Rightarrow> request \<Rightarrow> transport_result" where
  "moved n rq = Returns (example_response 301 [] None [])"

definition deprecated_then_fine :: "nat \<Rightarrow> request \<Rightarrow> transport_result" where
  "deprecated_then_fine n rq =
     (if n = 0 then
        Returns (example_response 401 (ustr ''{...}'')
          (Some (PDict [(ustr ''error'',
             PDict [(ustr ''code'', PStr (ustr ''BonsaiAuthDeprecated'')),
                    (ustr ''message'', PStr (ustr ''Use AAD''))])])) [])
      else Returns (example_response 200 (ustr ''[]'') (Some (PList [])) []))"

text \<open>The header dumps of a debug log, in order.\<close>

definition header_dumps :: "log_entry list \<Rightarrow> (pystr \<times> (pystr \<times> pystr) list) list" where
  "header_dumps l =
     concat (map (\<lambda>e. case e of DebugHeaders m d \<Rightarrow> [(m, d)] | Debug t \<Rightarrow> []) l)"

text \<open>
  The \<open>purpose\<close> object that holds the five values as they were passed, and the
  shape of a value: its keys and nesting, with every leaf blanked.
\<close>

definition spec_purpose :: "pystr \<Rightarrow> pystr \<Rightarrow> pystr \<Rightarrow> int \<Rightarrow> pystr \<Rightarrow> pyval" where
  "spec_purpose purpose_action workspace brain_name brain_version concept_name =
     PDict [(ustr ''action'', PStr purpose_action),
            (ustr ''target'',
             PDict [(ustr ''workspaceName'', PStr workspace),
                    (ustr ''brainName'', PStr brain_name),
                    (ustr ''brainVersion'', PStr (str_int brain_version)),
                    (ustr ''conceptName'', PStr concept_name)])]"

fun shape :: "pyval \<Rightarrow> pyval" where
  "shape (PList vs) = PList (map shape vs)"
| "shape (PDict d) = PDict (map (\<lambda>kv. (fst kv, shape (snd kv))) d)"
| "shape (PStr s) = PStr []"
| "shape (PInt i) = PInt 0"
| "shape (PFloat x) = PFloat []"
| "shape (PBool b) = PBool False"
| "shape v = v"

text \<open>
  Counting measures for the decoder: the double quotes, backslashes and letters
  \<open>u\<close> of a text, and what a decoded value needs of them in the text it was decoded
  from (two quotes around every string, and one more for each double quote or
  backslash inside it, which only an escape can produce).
\<close>

definition special :: "nat \<Rightarrow> bool" where
  "special c \<longleftrightarrow> c = 34 \<or> c = 92"

definition weight :: "pystr \<Rightarrow> nat" where
  "weight s = length (filter (\<lambda>c. c = 34 \<or> c = 92 \<or> c = 117) s)"

definition strcost :: "pystr \<Rightarrow> nat" where
  "strcost s = weight s + length (filter special s)"

fun cost :: "pyval \<Rightarrow> nat" where
  "cost (PStr s) = 2 + strcost s"
| "cost (PList vs) = sum_list (map cost vs)"
| "cost (PDict d) = sum_list (map (\<lambda>kv. 2 + strcost (fst kv) + cost (snd kv)) d)"
| "cost v = 0"

fun token_cost :: "token \<Rightarrow> nat" where
  "token_cost (TValue v) = cost v"
| "token_cost t = 0"

fun frame_cost :: "frame \<Rightarrow> nat" where
  "frame_cost (InArray vs) = sum_list (map cost vs)"
| "frame_cost (InObject d None) = cost (PDict d)"
| "frame_cost (InObject d (Some k)) = cost (PDict d) + 2 + strcost k"

fun expect_cost :: "expect \<Rightarrow> nat" where
  "expect_cost (Finished v) = cost v"
| "expect_cost e = 0"

definition state_cost :: "expect \<times> frame list \<Rightarrow> nat" where
  "state_cost st = expect_cost (fst st) + sum_list (map frame_cost (snd st))"

text \<open>
  Two names for the proofs about one attempt: the headers it sends, and the
  object once the attempt has drawn its identifiers and written its two log lines.
\<close>

definition headers_sent ::
  "env \<Rightarrow> bonsai_api \<Rightarrow> (pystr \<times> pystr) list option \<Rightarrow> (pystr \<times> pystr) list" where
  "headers_sent env self hdrs =
     (let headers_out = dict_update (get_headers self)
                          [(ustr ''RequestId'', uuid4 env (uuids_drawn self + 1))]
      in case hdrs of
           None \<Rightarrow> headers_out
         | Some h \<Rightarrow> if h \<noteq> [] then dict_update headers_out h else headers_out)"

definition after_logging :: "env \<Rightarrow> bonsai_api \<Rightarrow> pystr \<Rightarrow> pystr \<Rightarrow> bonsai_api" where
  "after_logging env self http_method url =
     self\<lparr>uuids_drawn := uuids_drawn self + 2,
          debug_log := debug_log self
            @ [Debug (ustr ''Sending '' @ http_method @ ustr '' request to '' @ url),
               DebugHeaders http_method
                 (scrub (dict_update (get_headers self)
                    [(ustr ''RequestId'', uuid4 env (uuids_drawn self + 1))]))]\<rparr>"

section \<open>Auxiliary facts\<close>

lemma ustr_inject [simp]: "ustr a = ustr b \<longleftrightarrow> a = b"
  unfolding ustr_def by (simp add: inj_map_eq_map inj_of_char)

lemma ustr_Nil [simp]: "ustr [] = []"
  by (simp add: ustr_def)

lemma ustr_eq_Nil [simp]: "ustr a = [] \<longleftrightarrow> a = []"
  by (simp add: ustr_def)

lemma strip_Nil [simp]: "strip [] = []"
  by (simp add: strip_def)

lemma nonblank_nonempty: "strip s \<noteq> [] \<Longrightarrow> s \<noteq> []"
  by auto

lemma ok_example [simp]: "ok (example_response 200 b p h)" "\<not> ok (example_response 401 b p h)"
  by (simp_all add: ok_def raise_for_status_def example_response_def)

lemma strip_example: "strip (ustr ''<html>'') \<noteq> []"
  by (simp add: strip_def ustr_def isspace_def)

lemma handle_and_raise_eq:
  "handle_and_raise rp r e request_id =
     BrainServerError (PDict
       ([(ustr ''errorDump'', error_dump_of r),
         (ustr ''status'', PStr (ustr ''Failed'')),
         (ustr ''statusCode'', PInt (status_code r)),
         (ustr ''elapsed'', PTimedelta (elapsed r)),
         (ustr ''exception'', e),
         (ustr ''errorCode'', PStr (error_code_of rp r)),
         (ustr ''errorMessage'', PStr (error_message_of rp r request_id))]
        @ (case headers r (ustr ''x-ms-response-time'') of
             Some t \<Rightarrow> [(ustr ''timeTaken'', PStr t)]
           | None \<Rightarrow> [])))"
  by (simp add: handle_and_raise_def Let_def split: option.splits)

lemma str_int_301: "str_int 301 = ustr ''301''"
  by (simp add: str_int_def ustr_def)

lemma session_call_verbs:
  assumes "http_method \<in> {ustr ''GET'', ustr ''DELETE'', ustr ''PUT'', ustr ''POST'',
                            ustr ''PATCH'', ustr ''POST_RAW'', ustr ''PUT_RAW''}"
  shows "\<exists>rq. session_call http_method url h data = Inr rq
            \<and> (allow_redirects rq \<longleftrightarrow> http_method = ustr ''GET'')
            \<and> req_url rq = url \<and> req_headers rq = h"
  using assms by (auto simp add: session_call_def)

lemma try_http_request_alt:
  "try_http_request env self http_method url data hdrs =
     (case session_call http_method url (headers_sent env self hdrs) data of
        Inl x \<Rightarrow> (Inl x, after_logging env self http_method url)
      | Inr rq \<Rightarrow>
          (case transport env (length (sent self)) rq of
             RaisesConnectionError \<Rightarrow>
               (Inl (BrainServerError (PStr
                  (ustr ''Connection Error. Unable to connect to domain: '' @ url
                   @ ustr ''. Request ID: '' @ uuid4 env (uuids_drawn self)))),
                (after_logging env self http_method url)\<lparr>sent := sent self @ [rq]\<rparr>)
           | RaisesTimeout \<Rightarrow>
               (Inl (BrainServerError (PStr
                  (ustr ''Request to '' @ url @ ustr '' timed out. Current timeout is ''
                   @ str_int TIMEOUT
                   @ ustr '' seconds. Use the --timeout/-t option to adjust the timeout. Request ID: ''
                   @ uuid4 env (uuids_drawn self)))),
                (after_logging env self http_method url)\<lparr>sent := sent self @ [rq]\<rparr>)
           | RaisesOther m \<Rightarrow>
               (Inl (TransportError m),
                (after_logging env self http_method url)\<lparr>sent := sent self @ [rq]\<rparr>)
           | Returns r \<Rightarrow>
               (case raise_for_status r of
                  Some msg \<Rightarrow>
                    (Inl (handle_and_raise (py_repr env) r (PHTTPError msg)
                            (uuid4 env (uuids_drawn self))),
                     (after_logging env self http_method url)\<lparr>sent := sent self @ [rq]\<rparr>)
                | None \<Rightarrow>
                    (case raise_on_redirect self r of
                       Some msg \<Rightarrow>
                         (Inl (handle_and_raise (py_repr env) r (PHTTPError msg)
                                 (uuid4 env (uuids_drawn self))),
                          (after_logging env self http_method url)\<lparr>sent := sent self @ [rq]\<rparr>)
                     | None \<Rightarrow>
                         (Inr (dict r (uuid4 env (uuids_drawn self))),
                          (after_logging env self http_method url)
                            \<lparr>sent := sent self @ [rq],
                             debug_log := debug_log (after_logging env self http_method url)
                               @ [Debug (http_method @ ustr '' '' @ url @ ustr '' results:''
                                         @ [10] @ body_text r)]\<rparr>)))))"
  unfolding try_http_request_def Let_def headers_sent_def after_logging_def get_headers_def
    raise_on_redirect_def
  by (simp cong: sum.case_cong option.case_cong transport_result.case_cong if_cong)


lemma try_http_request_unsupported:
  assumes "session_call http_method url (headers_sent env self hdrs) data = Inl x"
  shows "try_http_request env self http_method url data hdrs
           = (Inl x, after_logging env self http_method url)"
  using assms by (simp add: try_http_request_alt)

lemma sent_after_logging [simp]: "sent (after_logging env self http_method url) = sent self"
  by (simp add: after_logging_def)

lemma try_http_request_sent:
  assumes "session_call http_method url (headers_sent env self hdrs) data = Inr rq"
  shows "sent (snd (try_http_request env self http_method url data hdrs)) = sent self @ [rq]"
  using assms
  by (simp add: try_http_request_alt split: transport_result.splits option.splits)

lemma try_http_request_result:
  assumes "session_call http_method url (headers_sent env self hdrs) data = Inr rq"
  shows "fst (try_http_request env self http_method url data hdrs) =
     (case transport env (length (sent self)) rq of
        RaisesConnectionError \<Rightarrow>
          Inl (BrainServerError (PStr
             (ustr ''Connection Error. Unable to connect to domain: '' @ url
              @ ustr ''. Request ID: '' @ uuid4 env (uuids_drawn self))))
      | RaisesTimeout \<Rightarrow>
          Inl (BrainServerError (PStr
             (ustr ''Request to '' @ url @ ustr '' timed out. Current timeout is ''
              @ str_int TIMEOUT
              @ ustr '' seconds. Use the --timeout/-t option to adjust the timeout. Request ID: ''
              @ uuid4 env (uuids_drawn self))))
      | RaisesOther m \<Rightarrow> Inl (TransportError m)
      | Returns r \<Rightarrow>
          (case raise_for_status r of
             Some msg \<Rightarrow> Inl (handle_and_raise (py_repr env) r (PHTTPError msg)
                                (uuid4 env (uuids_drawn self)))
           | None \<Rightarrow>
               (case raise_on_redirect self r of
                  Some msg \<Rightarrow> Inl (handle_and_raise (py_repr env) r (PHTTPError msg)
                                     (uuid4 env (uuids_drawn self)))
                | None \<Rightarrow> Inr (dict r (uuid4 env (uuids_drawn self))))))"
  using assms
  by (simp add: try_http_request_alt split: transport_result.splits option.splits)

lemma last_ten_empty: "drop (length k - 10) k = [] \<longleftrightarrow> k = []"
  by (cases k) auto

lemma scrub_headers:
  "scrub (dict_update (get_headers self) [(ustr ''RequestId'', u)])
     = [(ustr ''Authorization'',
         if access_key self = [] then []
         else ustr ''***'' @ drop (length (access_key self) - 10) (access_key self)),
        (ustr ''User-Agent'', user_info self),
        (ustr ''RequestId'', u)]"
  by (simp add: scrub_def dict_update_def get_headers_def)

lemma header_dumps_append [simp]: "header_dumps (a @ b) = header_dumps a @ header_dumps b"
  by (simp add: header_dumps_def)

lemma header_dumps_simps [simp]:
  "header_dumps [] = []"
  "header_dumps (Debug t # l) = header_dumps l"
  "header_dumps (DebugHeaders m d # l) = (m, d) # header_dumps l"
  by (simp_all add: header_dumps_def)

lemma try_http_request_header_dumps:
  "header_dumps (debug_log (snd (try_http_request env self http_method url data hdrs)))
     = header_dumps (debug_log self)
       @ [(http_method,
           scrub (dict_update (get_headers self)
                    [(ustr ''RequestId'', uuid4 env (uuids_drawn self + 1))]))]"
  by (simp add: try_http_request_def Let_def get_headers_def
           split: sum.splits transport_result.splits option.splits)

lemma session_call_other_headers:
  assumes "session_call http_method url h data = Inr rq"
  shows "session_call http_method url h' data = Inr (rq\<lparr>req_headers := h'\<rparr>)"
  using assms by (auto simp add: session_call_def split: if_splits)

lemma try_http_request_BrainServerError:
  assumes "try_http_request env self http_method url data hdrs = (Inl (BrainServerError err), self1)"
  shows "\<exists>rq. session_call http_method url (headers_sent env self hdrs) data = Inr rq
              \<and> sent self1 = sent self @ [rq]"
proof (cases "session_call http_method url (headers_sent env self hdrs) data")
  case (Inl x)
  then have "x = UsageError (ustr ''UNSUPPORTED HTTP REQUEST METHOD'')"
    by (auto simp add: session_call_def split: if_splits)
  with Inl assms show ?thesis
    by (simp add: try_http_request_unsupported)
next
  case (Inr rq)
  from try_http_request_sent [OF Inr] assms show ?thesis
    using Inr by simp
qed

lemma try_http_request_access_key:
  "access_key (snd (try_http_request env self http_method url data hdrs)) = access_key self"
  by (simp add: try_http_request_alt after_logging_def
        split: sum.splits transport_result.splits option.splits)

lemma format_list_brains:
  "format LIST_BRAINS_URL_PATH_TEMPLATE [] [(ustr ''workspacename'', w)]
     = Inr (ustr ''/v2/workspaces/'' @ w @ ustr ''/brains'')"
  by (simp add: format_def LIST_BRAINS_URL_PATH_TEMPLATE_def ustr_def)

lemma session_call_GET:
  "session_call (ustr ''GET'') url h data =
     Inr \<lparr>req_method = ustr ''GET'', req_url = url, req_headers = h,
          req_body = NoBody, allow_redirects = True, timeout = TIMEOUT\<rparr>"
  by (simp add: session_call_def)


subsection \<open>Counting in the decoder\<close>

lemma weight_simps [simp]:
  "weight [] = 0"
  "weight (c # s) = (if c = 34 \<or> c = 92 \<or> c = 117 then 1 else 0) + weight s"
  "weight (s @ t) = weight s + weight t"
  by (simp_all add: weight_def)

lemma strcost_simps [simp]:
  "strcost [] = 0"
  "strcost (s @ t) = strcost s + strcost t"
  by (simp_all add: strcost_def)

lemma strcost_single:
  "strcost [c] = (if c = 34 \<or> c = 92 then 2 else if c = 117 then 1 else 0)"
  by (simp add: strcost_def special_def)

lemma weight_drop: "weight (drop n s) \<le> weight s"
proof -
  have "weight s = weight (take n s) + weight (drop n s)"
    by (metis append_take_drop_id weight_simps(3))
  then show ?thesis by simp
qed

lemma scan_literal_cost: "scan_literal lim s = Some (t, n) \<Longrightarrow> token_cost t = 0"
  by (auto simp add: scan_literal_def match_number_def Let_def split: if_splits)

lemma backslash_cost: "backslash e = Some ch \<Longrightarrow> strcost [ch] \<le> 1 + weight [e]"
  by (auto simp add: backslash_def strcost_single split: if_splits)

lemma lex_cost:
  "sum_list (map token_cost (lex lim s)) \<le> weight s"
  "sum_list (map token_cost (lexstring lim' acc s')) \<le> 1 + strcost acc + weight s'"
proof (induction lim s and lim' acc s' rule: lex_lexstring.induct)
  case (1 lim)
  then show ?case by simp
next
  case (2 lim c cs)
  show ?case
  proof (cases "c = 34")
    case True
    with 2 show ?thesis by simp
  next
    case False
    show ?thesis
    proof (cases "c = 32 \<or> c = 9 \<or> c = 10 \<or> c = 13 \<or> c = 123 \<or> c = 125 \<or> c = 91 \<or> c = 93
                  \<or> c = 58 \<or> c = 44")
      case True
      with 2 False show ?thesis
        by (auto split: if_splits)
    next
      case other: False
      show ?thesis
      proof (cases "scan_literal lim (c # cs)")
        case None
        with other False show ?thesis by simp
      next
        case (Some tn)
        obtain t n where tn: "tn = (t, n)" by (cases tn)
        have "sum_list (map token_cost (lex lim (drop (n - 1) cs))) \<le> weight (drop (n - 1) cs)"
          using "2.IH"(9) other False Some tn by simp
        then show ?thesis
          using other False Some tn scan_literal_cost [of lim "c # cs" t n]
            weight_drop [of "n - 1" cs]
          by simp
      qed
    qed
  qed
next
  case (3 lim acc)
  then show ?case by simp
next
  case (4 lim acc c cs)
  show ?case
  proof (cases "c = 34")
    case True
    with "4.IH"(1) show ?thesis by simp
  next
    case nq: False
    show ?thesis
    proof (cases "c = 92")
      case True
      show ?thesis
      proof (cases cs)
        case Nil
        with True nq show ?thesis by simp
      next
        case (Cons e es)
        show ?thesis
        proof (cases "e = 117")
          case u: True
          show ?thesis
          proof (cases "unicode_escape es")
            case None
            with nq True Cons u show ?thesis by simp
          next
            case (Some chn)
            obtain ch n where chn: "chn = (ch, n)" by (cases chn)
            have "sum_list (map token_cost (lexstring lim (acc @ [ch]) (drop n es)))
                    \<le> 1 + strcost (acc @ [ch]) + weight (drop n es)"
              using "4.IH"(2) nq True Cons u Some chn by simp
            moreover have "strcost [ch] \<le> 2"
              by (simp add: strcost_single)
            ultimately show ?thesis
              using weight_drop [of n es] nq True Cons u Some chn by simp
          qed
        next
          case nu: False
          show ?thesis
          proof (cases "backslash e")
            case None
            with nq True Cons nu show ?thesis by simp
          next
            case (Some ch)
            have "sum_list (map token_cost (lexstring lim (acc @ [ch]) es))
                    \<le> 1 + strcost (acc @ [ch]) + weight es"
              using "4.IH"(3) nq True Cons nu Some by simp
            then show ?thesis
              using backslash_cost [OF Some] nq True Cons nu Some by simp
          qed
        qed
      qed
    next
      case False
      show ?thesis
      proof (cases "c < 32")
        case True
        with nq False show ?thesis by simp
      next
        case ge: False
        have "sum_list (map token_cost (lexstring lim (acc @ [c]) cs))
                \<le> 1 + strcost (acc @ [c]) + weight cs"
          using "4.IH"(4) nq False ge by simp
        then show ?thesis
          using nq False ge by (simp add: strcost_single)
      qed
    qed
  qed
qed

lemma cost_update:
  "cost (PDict (AList.update k v d)) \<le> cost (PDict d) + 2 + strcost k + cost v"
  by (induction d) auto

lemma complete_cost:
  "state_cost (complete v stack) \<le> cost v + sum_list (map frame_cost stack)"
proof (cases stack)
  case Nil
  then show ?thesis by (simp add: complete_def state_cost_def)
next
  case (Cons f st)
  show ?thesis
  proof (cases f)
    case (InArray vs)
    with Cons show ?thesis by (simp add: complete_def state_cost_def)
  next
    case (InObject d ko)
    with Cons show ?thesis
      using cost_update [of _ v d]
      by (cases ko) (simp_all add: complete_def state_cost_def add.commute add_le_mono)
  qed
qed

lemma open_value_cost:
  "state_cost (open_value depth t stack) \<le> token_cost t + sum_list (map frame_cost stack)"
  using complete_cost by (cases t) (simp_all add: state_cost_def)

lemma close_array_cost:
  "state_cost (close_array stack) \<le> sum_list (map frame_cost stack)"
proof (cases stack)
  case Nil
  then show ?thesis by (simp add: close_array_def state_cost_def)
next
  case (Cons f st)
  then show ?thesis
    using complete_cost [of "PList vs" st for vs]
    by (cases f) (simp_all add: close_array_def state_cost_def)
qed

lemma close_object_cost:
  "state_cost (close_object stack) \<le> sum_list (map frame_cost stack)"
proof (cases stack)
  case Nil
  then show ?thesis by (simp add: close_object_def state_cost_def)
next
  case (Cons f st)
  show ?thesis
  proof (cases f)
    case (InArray vs)
    with Cons show ?thesis by (simp add: close_object_def state_cost_def)
  next
    case (InObject d ko)
    with Cons show ?thesis
      using complete_cost [of "PDict d" st]
      by (cases ko) (simp_all add: close_object_def state_cost_def)
  qed
qed

lemma read_key_cost:
  "state_cost (read_key t stack) \<le> token_cost t + sum_list (map frame_cost stack)"
  by (auto simp add: read_key_def state_cost_def
        split: token.splits pyval.splits list.splits frame.splits option.splits)

lemma parse_step_cost:
  "state_cost (parse_step depth st t) \<le> state_cost st + token_cost t"
proof (cases st)
  case (Pair e stack)
  have s: "state_cost (e, stack) = expect_cost e + sum_list (map frame_cost stack)"
    by (simp add: state_cost_def)
  have z: "state_cost (x, y) = expect_cost x + sum_list (map frame_cost y)" for x y
    by (simp add: state_cost_def)
  show ?thesis
    unfolding Pair s
    using open_value_cost [of depth t stack] close_array_cost [of stack]
      close_object_cost [of stack] read_key_cost [of t stack]
    by (cases e) (auto simp add: z split: list.splits frame.splits option.splits)
qed

lemma parse_cost:
  "state_cost (foldl (parse_step depth) st ts) \<le> state_cost st + sum_list (map token_cost ts)"
proof (induction ts arbitrary: st)
  case Nil
  then show ?case by simp
next
  case (Cons t ts)
  have "state_cost (foldl (parse_step depth) (parse_step depth st t) ts)
          \<le> state_cost (parse_step depth st t) + sum_list (map token_cost ts)"
    by (rule Cons.IH)
  with parse_step_cost [of depth st t] show ?case by simp
qed

lemma json_loads_cost:
  assumes "json_loads env s = Inr v"
  shows "cost v \<le> weight s"
proof -
  let ?ts = "lex (int_max_str_digits env) s"
  from assms obtain st where
    p: "foldl (parse_step (json_max_depth env)) (Value, []) ?ts = (Finished v, st)"
    by (auto simp add: json_loads_def split: prod.splits expect.splits)
  have "cost v \<le> state_cost (foldl (parse_step (json_max_depth env)) (Value, []) ?ts)"
    by (simp add: p state_cost_def)
  also have "\<dots> \<le> state_cost (Value, []) + sum_list (map token_cost ?ts)"
    by (rule parse_cost)
  also have "\<dots> \<le> weight s"
    using lex_cost(1) [of "int_max_str_digits env" s] by (simp add: state_cost_def)
  finally show ?thesis .
qed

text \<open>
  The decoder raises nothing but its three exceptions: a failure of the machine
  starts as one of them and stays what it is.
\<close>

lemma complete_raises: "fst (complete v stack) = Failed x \<Longrightarrow> x = JSONDecodeError"
  by (auto simp add: complete_def split: list.splits frame.splits option.splits)

lemma open_value_raises:
  "fst (open_value depth t stack) = Failed x
   \<Longrightarrow> x = JSONDecodeError \<or> x = ValueError \<or> x = RecursionError"
  using complete_raises by (cases t) (auto split: if_splits)

lemma close_array_raises: "fst (close_array stack) = Failed x \<Longrightarrow> x = JSONDecodeError"
  using complete_raises
  by (auto simp add: close_array_def split: list.splits frame.splits)

lemma close_object_raises: "fst (close_object stack) = Failed x \<Longrightarrow> x = JSONDecodeError"
  using complete_raises
  by (auto simp add: close_object_def split: list.splits frame.splits option.splits)

lemma read_key_raises: "fst (read_key t stack) = Failed x \<Longrightarrow> x = JSONDecodeError"
  by (auto simp add: read_key_def
        split: token.splits pyval.splits list.splits frame.splits option.splits)

lemma parse_step_raises:
  assumes "\<And>y. fst st = Failed y
             \<Longrightarrow> y = JSONDecodeError \<or> y = ValueError \<or> y = RecursionError"
    and "fst (parse_step depth st t) = Failed x"
  shows "x = JSONDecodeError \<or> x = ValueError \<or> x = RecursionError"
proof (cases st)
  case (Pair e stack)
  show ?thesis
    using assms open_value_raises [of depth t stack x] close_array_raises [of stack x]
      close_object_raises [of stack x] read_key_raises [of t stack x]
    unfolding Pair
    by (cases e) (auto split: if_splits list.splits frame.splits option.splits)
qed

lemma parse_raises:
  assumes "\<And>y. fst st = Failed y
             \<Longrightarrow> y = JSONDecodeError \<or> y = ValueError \<or> y = RecursionError"
    and "fst (foldl (parse_step depth) st ts) = Failed x"
  shows "x = JSONDecodeError \<or> x = ValueError \<or> x = RecursionError"
  using assms
proof (induction ts arbitrary: st)
  case Nil
  then show ?case by simp
next
  case (Cons t ts)
  show ?case
  proof (rule Cons.IH)
    fix y assume "fst (parse_step depth st t) = Failed y"
    then show "y = JSONDecodeError \<or> y = ValueError \<or> y = RecursionError"
      using Cons.prems(1) by (rule parse_step_raises [rotated])
  next
    show "fst (foldl (parse_step depth) (parse_step depth st t) ts) = Failed x"
      using Cons.prems(2) by simp
  qed
qed

lemma json_loads_raises:
  assumes "json_loads env s = Inl x"
  shows "x = JSONDecodeError \<or> x = ValueError \<or> x = RecursionError"
proof (cases "\<exists>y. fst (foldl (parse_step (json_max_depth env)) (Value, [])
                          (lex (int_max_str_digits env) s)) = Failed y")
  case True
  then obtain y where
    y: "fst (foldl (parse_step (json_max_depth env)) (Value, [])
               (lex (int_max_str_digits env) s)) = Failed y" ..
  have "y = JSONDecodeError \<or> y = ValueError \<or> y = RecursionError"
    by (rule parse_raises [OF _ y]) simp
  moreover have "x = y"
    using assms y by (auto simp add: json_loads_def split: prod.splits expect.splits)
  ultimately show ?thesis by simp
next
  case False
  with assms show ?thesis
    by (auto simp add: json_loads_def split: prod.splits expect.splits)
qed

text \<open>
  The two limits are met: an integer of more digits than the interpreter converts
  raises \<open>ValueError\<close>, and arrays opened beyond the depth the decoder can enter
  raise \<open>RecursionError\<close>.
\<close>

lemma match_number_too_long:
  assumes "640 < n" "0 < lim" "lim < n"
  shows "match_number lim (replicate n 49) = Some (TTooLong, n)"
proof -
  from assms obtain m where n: "n = Suc m" by (cases n) auto
  show ?thesis
    using assms unfolding n
    by (simp add: match_number_def Let_def isdigit_def takeWhile_replicate)
qed

lemma json_loads_digit_limit:
  assumes "640 < n" "0 < int_max_str_digits env" "int_max_str_digits env < n"
  shows "json_loads env (replicate n 49) = Inl ValueError"
proof -
  from assms obtain m where n: "n = Suc m" by (cases n) auto
  have "scan_literal (int_max_str_digits env) (49 # replicate m 49) = Some (TTooLong, n)"
    using match_number_too_long [OF assms] unfolding n
    by (simp add: scan_literal_def ustr_def)
  then have "lex (int_max_str_digits env) (replicate n 49) = [TTooLong]"
    unfolding n by simp
  then show ?thesis
    by (simp add: json_loads_def)
qed

lemma parse_failed:
  "foldl (parse_step depth) (Failed x, stack) ts = (Failed x, if ts = [] then stack else [])"
  by (induction ts arbitrary: stack) auto

lemma parse_brackets:
  assumes "e = Value \<or> e = ValueOrClose" "length stack \<le> depth" "depth < length stack + n"
  shows "fst (foldl (parse_step depth) (e, stack) (replicate n TLBracket))
           = Failed RecursionError"
  using assms
proof (induction n arbitrary: e stack)
  case 0
  then show ?case by simp
next
  case (Suc n)
  show ?case
  proof (cases "depth \<le> length stack")
    case True
    with Suc.prems(1) show ?thesis
      by (auto simp add: parse_failed)
  next
    case False
    have "fst (foldl (parse_step depth) (ValueOrClose, InArray [] # stack)
                 (replicate n TLBracket)) = Failed RecursionError"
      using False Suc.prems by (intro Suc.IH) auto
    with False Suc.prems(1) show ?thesis by auto
  qed
qed

lemma lex_brackets: "lex lim (replicate n 91) = replicate n TLBracket"
  by (induction n) simp_all

lemma json_loads_depth_limit:
  assumes "json_max_depth env < n"
  shows "json_loads env (replicate n 91) = Inl RecursionError"
proof -
  have "fst (foldl (parse_step (json_max_depth env)) (Value, []) (replicate n TLBracket))
          = Failed RecursionError"
    using assms by (intro parse_brackets) auto
  then show ?thesis
    by (auto simp add: json_loads_def lex_brackets split: prod.splits expect.splits)
qed

lemma str_nat_digits: "c \<in> set (str_nat n) \<Longrightarrow> 48 \<le> c \<and> c \<le> 57"
proof (induction n arbitrary: c rule: str_nat.induct)
  case (1 n)
  from "1.prems"
  have "c \<in> set (if n < 10 then [48 + n] else str_nat (n div 10) @ [48 + n mod 10])"
    by (subst (asm) str_nat.simps)
  then show ?case
    using "1.IH" by (auto simp del: str_nat.simps split: if_splits)
qed

lemma strcost_no_special:
  assumes "\<And>c. c \<in> set s \<Longrightarrow> c \<noteq> 34 \<and> c \<noteq> 92 \<and> c \<noteq> 117"
  shows "strcost s = 0"
  using assms by (induction s) (auto simp add: strcost_def special_def weight_def)

lemma strcost_str_int: "strcost (str_int i) = 0"
proof (rule strcost_no_special)
  fix c assume "c \<in> set (str_int i)"
  then have "c = 45 \<or> (48 \<le> c \<and> c \<le> 57)"
    using str_nat_digits by (auto simp add: str_int_def simp del: str_nat.simps split: if_splits)
  then show "c \<noteq> 34 \<and> c \<noteq> 92 \<and> c \<noteq> 117" by auto
qed

lemma weight_str_int: "weight (str_int i) = 0"
  using strcost_str_int [of i] by (simp add: strcost_def)

lemma format_purpose:
  "format PURPOSE_TEMPLATE [a, w, b, v, c] []
     = Inr (ustr ''{\"action\": \"'' @ a @ ustr ''\", \"target\": {\"workspaceName\": \"'' @ w
            @ ustr ''\", \"brainName\": \"'' @ b @ ustr ''\", \"brainVersion\": \"'' @ v
            @ ustr ''\", \"conceptName\": \"'' @ c @ ustr ''\"  } }'')"
  by (simp add: format_def PURPOSE_TEMPLATE_def ustr_def)

lemma specials_positive:
  "(\<exists>c \<in> set s. c = 34 \<or> c = 92) \<longleftrightarrow> weight s < strcost s"
  by (induction s) (auto simp add: strcost_def special_def)

lemma weight_le_strcost: "weight s \<le> strcost s"
  by (simp add: strcost_def)

lemma format_int_cases:
  "format_int env i = Inl ValueError \<or> format_int env i = Inr (str_int i)"
  by (simp add: format_int_def Let_def)

lemma purpose_not_spec:
  assumes "\<exists>c \<in> set (a @ w @ b @ cn). c = 34 \<or> c = 92"
  shows "json_loads_purpose env a w b v cn \<noteq> Inr (spec_purpose a w b v cn)"
proof
  assume eq: "json_loads_purpose env a w b v cn = Inr (spec_purpose a w b v cn)"
  let ?text = "ustr ''{\"action\": \"'' @ a @ ustr ''\", \"target\": {\"workspaceName\": \"'' @ w
            @ ustr ''\", \"brainName\": \"'' @ b @ ustr ''\", \"brainVersion\": \"'' @ str_int v
            @ ustr ''\", \"conceptName\": \"'' @ cn @ ustr ''\"  } }''"
  from eq have "format_int env v = Inr (str_int v)"
    using format_int_cases [of env v] by (auto simp add: json_loads_purpose_def)
  with eq have "json_loads env ?text = Inr (spec_purpose a w b v cn)"
    by (simp add: json_loads_purpose_def format_purpose)
  then have "cost (spec_purpose a w b v cn) \<le> weight ?text"
    by (rule json_loads_cost)
  moreover have "weight ?text = 22 + weight a + weight w + weight b + weight cn"
    by (simp add: weight_str_int) (simp add: ustr_def)
  moreover have "cost (spec_purpose a w b v cn)
                   = 22 + strcost a + strcost w + strcost b + strcost cn"
    by (simp add: spec_purpose_def strcost_str_int) (simp add: ustr_def strcost_def special_def)
  ultimately have "strcost a + strcost w + strcost b + strcost cn
                     \<le> weight a + weight w + weight b + weight cn"
    by simp
  moreover have "weight a < strcost a \<or> weight w < strcost w \<or> weight b < strcost b
                 \<or> weight cn < strcost cn"
    using assms specials_positive by auto
  ultimately show False
    using weight_le_strcost [of a] weight_le_strcost [of w] weight_le_strcost [of b]
      weight_le_strcost [of cn]
    by linarith
qed

lemma format_create_sim_collection:
  "format CREATE_SIM_COLLECTION_URL_PATH_TEMPLATE []
      [(ustr ''workspacename'', w), (ustr ''simulatorpackagename'', p)]
     = Inr (ustr ''/v2/workspaces/'' @ w @ ustr ''/simulatorpackages/'' @ p
            @ ustr ''/simulatorcollections'')"
  by (simp add: format_def CREATE_SIM_COLLECTION_URL_PATH_TEMPLATE_def ustr_def)

lemma format_patch_sim_sessions:
  "format PATCH_SIM_SESSIONS_URL_PATH_TEMPLATE []
      [(ustr ''workspacename'', w), (ustr ''sessionid'', s)]
     = Inr (ustr ''/v2/workspaces/'' @ w @ ustr ''/simulatorSessions/'' @ s)"
  by (simp add: format_def PATCH_SIM_SESSIONS_URL_PATH_TEMPLATE_def ustr_def)

lemma json_loads_purpose_raises:
  assumes "json_loads_purpose env a w b v cn = Inl x"
  shows "x = JSONDecodeError \<or> x = ValueError \<or> x = RecursionError"
proof (cases "format_int env v")
  case (Inl y)
  with assms format_int_cases [of env v] show ?thesis
    by (simp add: json_loads_purpose_def)
next
  case (Inr version)
  with assms have "json_loads env
      (ustr ''{\"action\": \"'' @ a @ ustr ''\", \"target\": {\"workspaceName\": \"'' @ w
       @ ustr ''\", \"brainName\": \"'' @ b @ ustr ''\", \"brainVersion\": \"'' @ version
       @ ustr ''\", \"conceptName\": \"'' @ cn @ ustr ''\"  } }'') = Inl x"
    by (simp add: json_loads_purpose_def format_purpose)
  then show ?thesis by (rule json_loads_raises)
qed

lemma json_loads_purpose_cases:
  assumes "\<exists>c \<in> set (a @ w @ b @ cn). c = 34 \<or> c = 92"
  shows "json_loads_purpose env a w b v cn = Inl JSONDecodeError
         \<or> json_loads_purpose env a w b v cn = Inl ValueError
         \<or> json_loads_purpose env a w b v cn = Inl RecursionError
         \<or> (\<exists>purpose. purpose \<noteq> spec_purpose a w b v cn
                \<and> json_loads_purpose env a w b v cn = Inr purpose)"
proof (cases "json_loads_purpose env a w b v cn")
  case (Inl x)
  then show ?thesis
    using json_loads_purpose_raises [OF Inl] by auto
next
  case (Inr purpose)
  with purpose_not_spec [OF assms, of env v] show ?thesis by auto
qed
section \<open>The claims\<close>

text \<open>
  Claim C1. Let the first attempt of a dispatched request raise \<open>x\<close> and leave the
  client as \<open>self1\<close>. When \<open>x\<close> is a \<open>BrainServerError\<close> whose text contains
  \<open>BonsaiAuthDeprecated\<close> or \<open>InvalidUseOfAccessKey\<close> and the token provider
  returns a token, the dispatcher stores the token as the current credential and
  its result is exactly the result of one more attempt with the same verb, URL,
  payload and headers: two requests are sent in all, the second with the new
  credential, and whatever the second attempt raises is what the caller gets. When
  the text contains neither sentinel, or \<open>x\<close> is not a \<open>BrainServerError\<close>, the
  error is raised as it is and nothing more is sent.
\<close>

theorem auth_fallback_retries_once:
  assumes "try_http_request env self http_method url data hdrs = (Inl x, self1)"
  shows
    "(\<forall>err token.
        x = BrainServerError err
        \<and> (contains (py_str (py_repr env) err) (ustr ''BonsaiAuthDeprecated'')
           \<or> contains (py_str (py_repr env) err) (ustr ''InvalidUseOfAccessKey''))
        \<and> aad_get_access_token env (tenant_id self1) = Inr token \<longrightarrow>
        http_request env self http_method url data hdrs
          = try_http_request env
              (self1\<lparr>debug_log := debug_log self1
                  @ [Debug (ustr ''Received BonsaiAuthDeprecated or InvalidUseOfAccessKey from service, switching to AAD authentication. Full error text: ''
                            @ py_str (py_repr env) err)],
                 access_key := token\<rparr>)
              http_method url data hdrs
        \<and> (\<exists>rq1 rq2.
              sent (snd (http_request env self http_method url data hdrs)) = sent self @ [rq1, rq2]
              \<and> req_method rq2 = req_method rq1 \<and> req_url rq2 = req_url rq1
              \<and> req_body rq2 = req_body rq1 \<and> allow_redirects rq2 = allow_redirects rq1
              \<and> (hdrs = None \<longrightarrow> map_of (req_headers rq2) (ustr ''Authorization'') = Some token))
        \<and> access_key (snd (http_request env self http_method url data hdrs)) = token)
     \<and> (\<forall>err.
        x = BrainServerError err
        \<and> \<not> contains (py_str (py_repr env) err) (ustr ''BonsaiAuthDeprecated'')
        \<and> \<not> contains (py_str (py_repr env) err) (ustr ''InvalidUseOfAccessKey'') \<longrightarrow>
        http_request env self http_method url data hdrs = (Inl x, self1))
     \<and> ((\<forall>err. x \<noteq> BrainServerError err) \<longrightarrow>
        http_request env self http_method url data hdrs = (Inl x, self1))"
proof (intro conjI allI impI)
  fix err
  assume "x = BrainServerError err
        \<and> \<not> contains (py_str (py_repr env) err) (ustr ''BonsaiAuthDeprecated'')
        \<and> \<not> contains (py_str (py_repr env) err) (ustr ''InvalidUseOfAccessKey'')"
  then show "http_request env self http_method url data hdrs = (Inl x, self1)"
    using assms by (simp add: http_request_def)
next
  assume "\<forall>err. x \<noteq> BrainServerError err"
  then show "http_request env self http_method url data hdrs = (Inl x, self1)"
    using assms by (cases x) (simp_all add: http_request_def)
next
  fix err token
  assume h: "x = BrainServerError err
        \<and> (contains (py_str (py_repr env) err) (ustr ''BonsaiAuthDeprecated'')
           \<or> contains (py_str (py_repr env) err) (ustr ''InvalidUseOfAccessKey''))
        \<and> aad_get_access_token env (tenant_id self1) = Inr token"
  let ?self2 = "self1\<lparr>debug_log := debug_log self1
                  @ [Debug (ustr ''Received BonsaiAuthDeprecated or InvalidUseOfAccessKey from service, switching to AAD authentication. Full error text: ''
                            @ py_str (py_repr env) err)],
                 access_key := token\<rparr>"
  show eq: "http_request env self http_method url data hdrs
          = try_http_request env ?self2 http_method url data hdrs"
    using assms h by (auto simp add: http_request_def Let_def)
  obtain rq1 where rq1: "session_call http_method url (headers_sent env self hdrs) data = Inr rq1"
      and s1: "sent self1 = sent self @ [rq1]"
    using try_http_request_BrainServerError assms h by blast
  let ?rq2 = "rq1\<lparr>req_headers := headers_sent env ?self2 hdrs\<rparr>"
  have rq2: "session_call http_method url (headers_sent env ?self2 hdrs) data = Inr ?rq2"
    by (rule session_call_other_headers [OF rq1])
  have "sent (snd (http_request env self http_method url data hdrs)) = sent self @ [rq1, ?rq2]"
    using try_http_request_sent [OF rq2] s1 by (simp add: eq)
  moreover have "hdrs = None \<longrightarrow> map_of (req_headers ?rq2) (ustr ''Authorization'') = Some token"
    by (simp add: headers_sent_def dict_update_def get_headers_def)
  ultimately show "\<exists>rq1 rq2.
              sent (snd (http_request env self http_method url data hdrs)) = sent self @ [rq1, rq2]
              \<and> req_method rq2 = req_method rq1 \<and> req_url rq2 = req_url rq1
              \<and> req_body rq2 = req_body rq1 \<and> allow_redirects rq2 = allow_redirects rq1
              \<and> (hdrs = None \<longrightarrow> map_of (req_headers rq2) (ustr ''Authorization'') = Some token)"
    by (intro exI [of _ rq1] exI [of _ ?rq2]) simp
  show "access_key (snd (http_request env self http_method url data hdrs)) = token"
    by (simp add: eq try_http_request_access_key)
qed

text \<open>
  An instance: the service answers 401 with the code \<open>BonsaiAuthDeprecated\<close>, then
  200. The call succeeds on the second request, with the token of the provider.
\<close>

theorem auth_fallback_retries_once_witness:
  "fst (http_request (example_env deprecated_then_fine) example_api (ustr ''GET'')
          (ustr ''https://api.example/v2/workspaces/acme/brains'') None None)
     = Inr [(ustr ''value'', PList []), (ustr ''status'', PStr (ustr ''Succeeded'')),
            (ustr ''statusCode'', PInt 200), (ustr ''statusMessage'', PStr []),
            (ustr ''elapsed'', PTimedelta 1500)]
   \<and> access_key (snd (http_request (example_env deprecated_then_fine) example_api (ustr ''GET'')
          (ustr ''https://api.example/v2/workspaces/acme/brains'') None None)) = ustr ''aad-token''
   \<and> length (sent (snd (http_request (example_env deprecated_then_fine) example_api
          (ustr ''GET'') (ustr ''https://api.example/v2/workspaces/acme/brains'') None None))) = 2"
proof -
  let ?E = "example_env deprecated_then_fine"
  let ?url = "ustr ''https://api.example/v2/workspaces/acme/brains''"
  define res where "res = try_http_request ?E example_api (ustr ''GET'') ?url None None"
  define err where "err = PDict
       [(ustr ''errorDump'', PDict [(ustr ''error'',
            PDict [(ustr ''code'', PStr (ustr ''BonsaiAuthDeprecated'')),
                   (ustr ''message'', PStr (ustr ''Use AAD''))])]),
        (ustr ''status'', PStr (ustr ''Failed'')),
        (ustr ''statusCode'', PInt 401),
        (ustr ''elapsed'', PTimedelta 1500),
        (ustr ''exception'', PHTTPError (ustr ''401 Client Error: reason for url: https://api.example/v2'')),
        (ustr ''errorCode'', PStr (ustr ''Request failed with error code \"BonsaiAuthDeprecated\"'')),
        (ustr ''errorMessage'', PStr (ustr ''Error message: Use AAD Request ID: uuid-0''))]"
  have t0: "transport ?E 0 rq = Returns (example_response 401 (ustr ''{...}'')
          (Some (PDict [(ustr ''error'',
             PDict [(ustr ''code'', PStr (ustr ''BonsaiAuthDeprecated'')),
                    (ustr ''message'', PStr (ustr ''Use AAD''))])])) [])" for rq
    by (simp add: example_env_def deprecated_then_fine_def)
  have t1: "transport ?E (Suc 0) rq = Returns (example_response 200 (ustr ''[]'') (Some (PList [])) [])" for rq
    by (simp add: example_env_def deprecated_then_fine_def)
  have r: "py_repr ?E = example_repr" and u0: "uuid4 ?E 0 = ustr ''uuid-0''"
    and aad: "aad_get_access_token ?E t = Inr (ustr ''aad-token'')" for t
    by (simp_all add: example_env_def ustr_def)
  have a: "sent example_api = []" "uuids_drawn example_api = 0"
    by (simp_all add: example_api_def)
  have f: "fst res = Inl (BrainServerError err)"
    unfolding res_def
    by (simp add: try_http_request_result [OF session_call_GET] a t0 r u0 handle_and_raise_eq)
       (simp add: example_response_def raise_for_status_def handle_and_raise_eq r a
          u0 [unfolded ustr_def, simplified]
          error_dump_of_def error_code_of_def error_message_of_def error_field_def
          subscript_def py_str_def str_int_def err_def ustr_def)
  have s: "sent (snd res) = [\<lparr>req_method = ustr ''GET'', req_url = ?url,
                   req_headers = headers_sent ?E example_api None,
                   req_body = NoBody, allow_redirects = True, timeout = TIMEOUT\<rparr>]"
    unfolding res_def
    by (simp add: try_http_request_sent [OF session_call_GET] a)
  have first: "try_http_request ?E example_api (ustr ''GET'') ?url None None
                 = (Inl (BrainServerError err), snd res)"
    using f unfolding res_def by (metis prod.collapse)
  have c: "contains (py_str (py_repr ?E) err) (ustr ''BonsaiAuthDeprecated'')"
    by (simp add: r py_str_def err_def ustr_def)
  let ?self2 = "(snd res)\<lparr>debug_log := debug_log (snd res)
                  @ [Debug (ustr ''Received BonsaiAuthDeprecated or InvalidUseOfAccessKey from service, switching to AAD authentication. Full error text: ''
                            @ py_str (py_repr ?E) err)],
                 access_key := ustr ''aad-token''\<rparr>"
  have eq: "http_request ?E example_api (ustr ''GET'') ?url None None
          = try_http_request ?E ?self2 (ustr ''GET'') ?url None None"
    using auth_fallback_retries_once [OF first] c aad by blast
  have d: "dict (example_response 200 (ustr ''[]'') (Some (PList [])) []) rid
     = [(ustr ''value'', PList []), (ustr ''status'', PStr (ustr ''Succeeded'')),
        (ustr ''statusCode'', PInt 200), (ustr ''statusMessage'', PStr []),
        (ustr ''elapsed'', PTimedelta 1500)]" for rid
    by (simp add: dict_def body_dict_def Let_def)
       (simp add: example_response_def strip_def isspace_def ustr_def)
  have n: "raise_for_status (example_response 200 b p h) = None"
     "raise_on_redirect x (example_response 200 b p h) = None" for b p h x
    by (simp_all add: raise_for_status_def raise_on_redirect_def example_response_def)
  show ?thesis
    unfolding eq
    by (simp add: try_http_request_alt session_call_GET s t1 n d after_logging_def)
qed

text \<open>
  Claim C2 fails for \<open>timeTaken\<close>: on a 200 response without the timing header whose
  body is \<open>{"timeTaken": "7"}\<close>, the record holds the value of the body.
\<close>

theorem dict_body_time_taken_counterexample:
  "ok (example_response 200 (ustr ''{\"timeTaken\": \"7\"}'')
         (Some (PDict [(ustr ''timeTaken'', PStr (ustr ''7''))])) [])
   \<and> headers (example_response 200 (ustr ''{\"timeTaken\": \"7\"}'')
         (Some (PDict [(ustr ''timeTaken'', PStr (ustr ''7''))])) [])
         (ustr ''x-ms-response-time'') = None
   \<and> map_of (dict (example_response 200 (ustr ''{\"timeTaken\": \"7\"}'')
                   (Some (PDict [(ustr ''timeTaken'', PStr (ustr ''7''))])) [])
                (ustr ''id''))
        (ustr ''timeTaken'') = Some (PStr (ustr ''7''))"
  by (simp add: dict_def body_dict_def Let_def)
     (simp add: example_response_def strip_def ustr_def isspace_def)

text \<open>
  Claim C2, amended. For a successful response whose body is a JSON object, the
  record holds the normalizer's own \<open>status\<close>, \<open>statusCode\<close>, \<open>statusMessage\<close> and
  \<open>elapsed\<close>, and the timing header as \<open>timeTaken\<close> when the response has that
  header; without the header no \<open>timeTaken\<close> is assigned, so a field of that name
  in the body stays. Every other field of the body is in the record unchanged.
\<close>

theorem dict_object_body:
  assumes "ok r" and "strip (body_text r) \<noteq> []" and "json r = Some (PDict d)"
  shows "map_of (dict r request_id) (ustr ''status'') = Some (PStr (ustr ''Succeeded'')) \<and>
         map_of (dict r request_id) (ustr ''statusCode'') = Some (PInt (status_code r)) \<and>
         map_of (dict r request_id) (ustr ''statusMessage'') = Some (PStr []) \<and>
         map_of (dict r request_id) (ustr ''elapsed'') = Some (PTimedelta (elapsed r)) \<and>
         map_of (dict r request_id) (ustr ''timeTaken'')
           = (case headers r (ustr ''x-ms-response-time'') of
                Some t \<Rightarrow> Some (PStr t)
              | None \<Rightarrow> map_of d (ustr ''timeTaken'')) \<and>
         (\<forall>k. k \<notin> spec_status_keys \<longrightarrow> map_of (dict r request_id) k = map_of d k)"
proof -
  have b: "body_dict r = d"
    using assms by (auto simp add: body_dict_def)
  show ?thesis
    using assms(1)
    by (auto simp add: dict_def b Let_def update_conv' spec_status_keys_def
          split: option.splits)
qed

text \<open>
  An instance: a body with a \<open>name\<close> and a \<open>status\<close> of its own, and a timing header.
\<close>

theorem dict_object_body_witness:
  "map_of (dict (example_response 200 (ustr ''{...}'')
                   (Some (PDict [(ustr ''name'', PStr (ustr ''b1'')),
                                 (ustr ''status'', PStr (ustr ''Deleted''))]))
                   [(ustr ''x-ms-response-time'', ustr ''12'')]) (ustr ''id''))
          (ustr ''status'') = Some (PStr (ustr ''Succeeded''))
   \<and> map_of (dict (example_response 200 (ustr ''{...}'')
                   (Some (PDict [(ustr ''name'', PStr (ustr ''b1'')),
                                 (ustr ''status'', PStr (ustr ''Deleted''))]))
                   [(ustr ''x-ms-response-time'', ustr ''12'')]) (ustr ''id''))
          (ustr ''timeTaken'') = Some (PStr (ustr ''12''))
   \<and> map_of (dict (example_response 200 (ustr ''{...}'')
                   (Some (PDict [(ustr ''name'', PStr (ustr ''b1'')),
                                 (ustr ''status'', PStr (ustr ''Deleted''))]))
                   [(ustr ''x-ms-response-time'', ustr ''12'')]) (ustr ''id''))
          (ustr ''name'') = Some (PStr (ustr ''b1''))"
proof -
  let ?d = "[(ustr ''name'', PStr (ustr ''b1'')), (ustr ''status'', PStr (ustr ''Deleted''))]"
  let ?r = "example_response 200 (ustr ''{...}'') (Some (PDict ?d))
              [(ustr ''x-ms-response-time'', ustr ''12'')]"
  have s: "strip (body_text ?r) \<noteq> []"
    by (simp add: example_response_def strip_def ustr_def isspace_def)
  have j: "json ?r = Some (PDict ?d)"
    by (simp add: example_response_def)
  have n: "ustr ''name'' \<notin> spec_status_keys"
    by (simp add: spec_status_keys_def)
  have h: "headers ?r (ustr ''x-ms-response-time'') = Some (ustr ''12'')"
    by (simp add: example_response_def)
  from dict_object_body [OF ok_example(1) s j, of "ustr ''id''"] n h show ?thesis
    by simp
qed

text \<open>
  Claim C3. An attempt with one of the seven verbs sends one request; it follows
  redirects only when the verb is \<open>GET\<close>. Whatever the verb, when the answer has
  status 301 the attempt raises a \<open>BrainServerError\<close> whose record carries the
  status code 301 and, as its exception, the \<open>HTTPError\<close> with the message
  \<open>301 Moved Permanently: Likely misconfigured url:\<close> followed by the API URL of
  the client.
\<close>

theorem redirects_off_and_status_301:
  assumes "http_method \<in> {ustr ''GET'', ustr ''DELETE'', ustr ''PUT'', ustr ''POST'',
                            ustr ''PATCH'', ustr ''POST_RAW'', ustr ''PUT_RAW''}"
  shows "\<exists>rq. sent (snd (try_http_request env self http_method url data hdrs)) = sent self @ [rq]
          \<and> (allow_redirects rq \<longleftrightarrow> http_method = ustr ''GET'')
          \<and> (\<forall>r. transport env (length (sent self)) rq = Returns r \<and> status_code r = 301 \<longrightarrow>
                (\<exists>d. fst (try_http_request env self http_method url data hdrs)
                        = Inl (BrainServerError (PDict d))
                    \<and> map_of d (ustr ''statusCode'') = Some (PInt 301)
                    \<and> map_of d (ustr ''exception'')
                        = Some (PHTTPError
                            (ustr ''301 Moved Permanently: Likely misconfigured url: ''
                             @ api_url self))))"
proof -
  obtain rq where rq: "session_call http_method url (headers_sent env self hdrs) data = Inr rq"
    and redirects: "allow_redirects rq \<longleftrightarrow> http_method = ustr ''GET''"
    using session_call_verbs [OF assms] by blast
  have "\<exists>d. fst (try_http_request env self http_method url data hdrs)
                = Inl (BrainServerError (PDict d))
            \<and> map_of d (ustr ''statusCode'') = Some (PInt 301)
            \<and> map_of d (ustr ''exception'')
                = Some (PHTTPError (ustr ''301 Moved Permanently: Likely misconfigured url: ''
                                    @ api_url self))"
    if "transport env (length (sent self)) rq = Returns r \<and> status_code r = 301" for r
  proof -
    have "raise_for_status r = None"
      using that by (simp add: raise_for_status_def)
    moreover have "raise_on_redirect self r
        = Some (ustr ''301 Moved Permanently: Likely misconfigured url: '' @ api_url self)"
      using that by (simp add: raise_on_redirect_def str_int_301 ustr_def)
    ultimately show ?thesis
      using that by (simp add: try_http_request_result [OF rq] handle_and_raise_eq)
  qed
  then show ?thesis
    using try_http_request_sent [OF rq] redirects by blast
qed

text \<open>An instance: a \<open>PUT\<close> answered with status 301.\<close>

theorem redirects_off_and_status_301_witness:
  "\<exists>rq d. sent (snd (try_http_request (example_env moved) example_api (ustr ''PUT'')
                        (ustr ''https://api.example/v2'') None None)) = [rq]
     \<and> \<not> allow_redirects rq
     \<and> fst (try_http_request (example_env moved) example_api (ustr ''PUT'')
              (ustr ''https://api.example/v2'') None None) = Inl (BrainServerError (PDict d))
     \<and> map_of d (ustr ''exception'')
         = Some (PHTTPError
             (ustr ''301 Moved Permanently: Likely misconfigured url: https://api.example''))"
proof -
  have v: "ustr ''PUT'' \<in> {ustr ''GET'', ustr ''DELETE'', ustr ''PUT'', ustr ''POST'',
                            ustr ''PATCH'', ustr ''POST_RAW'', ustr ''PUT_RAW''}"
    by simp
  have t: "transport (example_env moved) n rq = Returns (example_response 301 [] None [])
           \<and> status_code (example_response 301 [] None []) = 301" for n rq
    by (simp add: example_env_def moved_def example_response_def)
  have a: "ustr ''301 Moved Permanently: Likely misconfigured url: '' @ api_url example_api
           = ustr ''301 Moved Permanently: Likely misconfigured url: https://api.example''"
    by (simp add: example_api_def ustr_def)
  have s: "sent example_api = []"
    by (simp add: example_api_def)
  from redirects_off_and_status_301 [OF v, of "example_env moved" example_api
         "ustr ''https://api.example/v2''" None None]
  show ?thesis
    using t unfolding a s by fastforce
qed

text \<open>
  Claim C4 fails on the code. \<open>_try_http_request\<close> draws one identifier for
  \<open>req_id\<close>, which goes into the error messages and the result, and draws a second
  one for the \<open>RequestId\<close> header. With identifiers \<open>uuid-0\<close>, \<open>uuid-1\<close>, ... and a
  transport that cannot connect, \<open>list_brains\<close> sends the header \<open>uuid-1\<close> and
  raises an error that names \<open>uuid-0\<close>.
\<close>

theorem request_id_header_is_not_the_logged_id:
  "fst (list_brains (example_env unreachable) example_api None)
     = Inl (BrainServerError (PStr (ustr ''Connection Error. Unable to connect to domain: https://api.example/v2/workspaces/acme/brains. Request ID: uuid-0'')))
   \<and> map (\<lambda>rq. map_of (req_headers rq) (ustr ''RequestId''))
         (sent (snd (list_brains (example_env unreachable) example_api None)))
     = [Some (ustr ''uuid-1'')]"
proof -
  let ?url = "ustr ''https://api.example/v2/workspaces/acme/brains''"
  have t: "try_http_request (example_env unreachable) example_api (ustr ''GET'') ?url None None
      = (Inl (BrainServerError (PStr (ustr ''Connection Error. Unable to connect to domain: https://api.example/v2/workspaces/acme/brains. Request ID: uuid-0''))),
         (after_logging (example_env unreachable) example_api (ustr ''GET'') ?url)
           \<lparr>sent := [\<lparr>req_method = ustr ''GET'', req_url = ?url,
                      req_headers = headers_sent (example_env unreachable) example_api None,
                      req_body = NoBody, allow_redirects = True, timeout = TIMEOUT\<rparr>]\<rparr>)"
    by (simp add: try_http_request_alt session_call_GET)
       (simp add: example_env_def unreachable_def example_api_def ustr_def)
  have c: "\<not> contains (ustr ''Connection Error. Unable to connect to domain: https://api.example/v2/workspaces/acme/brains. Request ID: uuid-0'') (ustr ''BonsaiAuthDeprecated'')"
    "\<not> contains (ustr ''Connection Error. Unable to connect to domain: https://api.example/v2/workspaces/acme/brains. Request ID: uuid-0'') (ustr ''InvalidUseOfAccessKey'')"
    by (simp_all add: ustr_def)
  have l: "list_brains (example_env unreachable) example_api None
      = http_request (example_env unreachable) example_api (ustr ''GET'') ?url None None"
    by (simp add: list_brains_def format_list_brains workspacename_def get_def)
       (simp add: example_env_def example_api_def ustr_def)
  have h: "http_request (example_env unreachable) example_api (ustr ''GET'') ?url None None
      = (Inl (BrainServerError (PStr (ustr ''Connection Error. Unable to connect to domain: https://api.example/v2/workspaces/acme/brains. Request ID: uuid-0''))),
         (after_logging (example_env unreachable) example_api (ustr ''GET'') ?url)
           \<lparr>sent := [\<lparr>req_method = ustr ''GET'', req_url = ?url,
                      req_headers = headers_sent (example_env unreachable) example_api None,
                      req_body = NoBody, allow_redirects = True, timeout = TIMEOUT\<rparr>]\<rparr>)"
    using c by (simp add: http_request_def t py_str_def)
  show ?thesis
    by (simp add: l h) (simp add: headers_sent_def dict_update_def get_headers_def example_env_def example_api_def ustr_def)
qed

text \<open>
  Claim C5. For a successful response whose text is not blank: when
  \<open>response.json()\<close> raises, the normalizer returns the status fields and nothing
  else, with status \<open>Succeeded\<close>; when the body is valid JSON that is not an object,
  it returns the body under \<open>value\<close>, followed by the status fields.
\<close>

theorem dict_body_not_an_object:
  assumes "ok r" and "strip (body_text r) \<noteq> []"
  shows "(json r = None \<longrightarrow> dict r request_id = spec_status_fields r) \<and>
         (\<forall>v. json r = Some v \<and> (\<forall>d. v \<noteq> PDict d) \<longrightarrow>
              dict r request_id = (ustr ''value'', v) # spec_status_fields r)"
proof (intro conjI allI impI)
  assume "json r = None"
  with assms show "dict r request_id = spec_status_fields r"
    by (auto simp add: dict_def body_dict_def spec_status_fields_def Let_def split: option.splits)
next
  fix v
  assume v: "json r = Some v \<and> (\<forall>d. v \<noteq> PDict d)"
  then have "body_dict r = [(ustr ''value'', v)]"
    using assms by (cases v) (auto simp add: body_dict_def)
  then show "dict r request_id = (ustr ''value'', v) # spec_status_fields r"
    using assms by (auto simp add: dict_def spec_status_fields_def Let_def split: option.splits)
qed

text \<open>An instance: an HTML body, and a body that is a JSON array.\<close>

theorem dict_body_not_an_object_witness:
  "dict (example_response 200 (ustr ''<html>'') None []) (ustr ''id'')
     = [(ustr ''status'', PStr (ustr ''Succeeded'')), (ustr ''statusCode'', PInt 200),
        (ustr ''statusMessage'', PStr []), (ustr ''elapsed'', PTimedelta 1500)]
   \<and> dict (example_response 200 (ustr ''<html>'') (Some (PList [PInt 1])) []) (ustr ''id'')
     = [(ustr ''value'', PList [PInt 1]),
        (ustr ''status'', PStr (ustr ''Succeeded'')), (ustr ''statusCode'', PInt 200),
        (ustr ''statusMessage'', PStr []), (ustr ''elapsed'', PTimedelta 1500)]"
proof -
  let ?r1 = "example_response 200 (ustr ''<html>'') None []"
  let ?r2 = "example_response 200 (ustr ''<html>'') (Some (PList [PInt 1])) []"
  have s1: "strip (body_text ?r1) \<noteq> []" and s2: "strip (body_text ?r2) \<noteq> []"
    by (simp_all add: example_response_def strip_example)
  have j1: "json ?r1 = None"
    and j2: "json ?r2 = Some (PList [PInt 1]) \<and> (\<forall>d. PList [PInt 1] \<noteq> PDict d)"
    by (simp_all add: example_response_def)
  have "dict ?r1 (ustr ''id'') = spec_status_fields ?r1"
    using dict_body_not_an_object [OF ok_example(1) s1] j1 by blast
  moreover have "dict ?r2 (ustr ''id'') = (ustr ''value'', PList [PInt 1]) # spec_status_fields ?r2"
    using dict_body_not_an_object [OF ok_example(1) s2] j2 by blast
  ultimately show ?thesis
    by (simp add: spec_status_fields_def example_response_def)
qed

text \<open>
  Claim C6. Whatever the response, the error classifier raises a
  \<open>BrainServerError\<close> with a record in which every field has its value or its
  default, each read from its own source. The dump is the parsed body, or the
  unknown-error marker when the body is not JSON. The error code is built from
  \<open>error.code\<close> and from nothing else: it is there whenever the body is an object
  whose \<open>error\<close> is an object that has \<open>code\<close>, whether or not \<open>error.message\<close>,
  the span id or the timing header are there, and it is the empty string otherwise.
  The error message is built from \<open>error.message\<close> in the same way, whether or
  not \<open>error.code\<close> is there, and is \<open>Request failed.\<close> otherwise; the request
  id is always appended to it, the span id when its header is there. Status, status
  code, elapsed time and exception are always recorded; the time taken is there
  exactly when the timing header is.
\<close>

theorem handle_and_raise_fields:
  "\<exists>d. handle_and_raise rp r e request_id = BrainServerError (PDict d) \<and>
     map_of d (ustr ''errorDump'')
       = Some (case json r of
                 Some v \<Rightarrow> v
               | None \<Rightarrow> PStr (ustr ''Unknown server error occurred'')) \<and>
     map_of d (ustr ''status'') = Some (PStr (ustr ''Failed'')) \<and>
     map_of d (ustr ''statusCode'') = Some (PInt (status_code r)) \<and>
     map_of d (ustr ''elapsed'') = Some (PTimedelta (elapsed r)) \<and>
     map_of d (ustr ''exception'') = Some e \<and>
     map_of d (ustr ''errorCode'')
       = Some (PStr
           (case json r of
              Some (PDict body) \<Rightarrow>
                (case map_of body (ustr ''error'') of
                   Some (PDict err) \<Rightarrow>
                     (case map_of err (ustr ''code'') of
                        Some c \<Rightarrow>
                          ustr ''Request failed with error code \"'' @ py_str rp c @ ustr ''\"''
                      | None \<Rightarrow> [])
                 | _ \<Rightarrow> [])
            | _ \<Rightarrow> [])) \<and>
     map_of d (ustr ''errorMessage'')
       = Some (PStr
           ((case json r of
               Some (PDict body) \<Rightarrow>
                 (case map_of body (ustr ''error'') of
                    Some (PDict err) \<Rightarrow>
                      (case map_of err (ustr ''message'') of
                         Some m \<Rightarrow> ustr ''Error message: '' @ py_str rp m
                       | None \<Rightarrow> ustr ''Request failed.'')
                  | _ \<Rightarrow> ustr ''Request failed.'')
             | _ \<Rightarrow> ustr ''Request failed.'')
            @ ustr '' Request ID: '' @ request_id
            @ (case headers r (ustr ''SpanID'') of
                 Some s \<Rightarrow> ustr '' Span ID: '' @ s
               | None \<Rightarrow> []))) \<and>
     map_of d (ustr ''timeTaken'') = map_option PStr (headers r (ustr ''x-ms-response-time''))"
proof -
  have code: "error_code_of rp r
      = (case json r of
           Some (PDict body) \<Rightarrow>
             (case map_of body (ustr ''error'') of
                Some (PDict err) \<Rightarrow>
                  (case map_of err (ustr ''code'') of
                     Some c \<Rightarrow>
                       ustr ''Request failed with error code \"'' @ py_str rp c @ ustr ''\"''
                   | None \<Rightarrow> [])
              | _ \<Rightarrow> [])
         | _ \<Rightarrow> [])"
    by (simp add: error_code_of_def error_field_def subscript_def
          split: option.splits pyval.splits)
  have message: "error_message_of rp r request_id
      = (case json r of
           Some (PDict body) \<Rightarrow>
             (case map_of body (ustr ''error'') of
                Some (PDict err) \<Rightarrow>
                  (case map_of err (ustr ''message'') of
                     Some m \<Rightarrow> ustr ''Error message: '' @ py_str rp m
                   | None \<Rightarrow> ustr ''Request failed.'')
              | _ \<Rightarrow> ustr ''Request failed.'')
         | _ \<Rightarrow> ustr ''Request failed.'')
        @ ustr '' Request ID: '' @ request_id
        @ (case headers r (ustr ''SpanID'') of
             Some s \<Rightarrow> ustr '' Span ID: '' @ s
           | None \<Rightarrow> [])"
    by (simp add: error_message_of_def error_field_def subscript_def Let_def
          split: option.splits pyval.splits)
  have dump: "error_dump_of r
      = (case json r of
           Some v \<Rightarrow> v
         | None \<Rightarrow> PStr (ustr ''Unknown server error occurred''))"
    by (simp add: error_dump_of_def)
  show ?thesis
    unfolding handle_and_raise_eq code message dump
    by (cases "headers r (ustr ''x-ms-response-time'')") (simp_all add: ustr_def)
qed

text \<open>
  Three responses: one with \<open>error.code\<close> and no \<open>error.message\<close>, no span id and
  no timing header, where the code is captured and the message is at its default;
  one with \<open>error.message\<close> and no \<open>error.code\<close>, where the message, the span id
  and the time taken are captured and the code is empty; one whose body is not
  JSON, where the dump is the marker and the time taken is still captured.
\<close>

theorem handle_and_raise_fields_witness:
  "(\<exists>d. handle_and_raise example_repr
          (example_response 400 (ustr ''{...}'')
             (Some (PDict [(ustr ''error'', PDict [(ustr ''code'', PStr (ustr ''E1''))])])) [])
          (PHTTPError (ustr ''400'')) (ustr ''uuid-0'') = BrainServerError (PDict d) \<and>
      map_of d (ustr ''errorDump'')
        = Some (PDict [(ustr ''error'', PDict [(ustr ''code'', PStr (ustr ''E1''))])]) \<and>
      map_of d (ustr ''status'') = Some (PStr (ustr ''Failed'')) \<and>
      map_of d (ustr ''statusCode'') = Some (PInt 400) \<and>
      map_of d (ustr ''elapsed'') = Some (PTimedelta 1500) \<and>
      map_of d (ustr ''exception'') = Some (PHTTPError (ustr ''400'')) \<and>
      map_of d (ustr ''errorCode'')
        = Some (PStr (ustr ''Request failed with error code \"E1\"'')) \<and>
      map_of d (ustr ''errorMessage'')
        = Some (PStr (ustr ''Request failed. Request ID: uuid-0'')) \<and>
      map_of d (ustr ''timeTaken'') = None)
   \<and> (\<exists>d. handle_and_raise example_repr
          (example_response 500 (ustr ''{...}'')
             (Some (PDict [(ustr ''error'', PDict [(ustr ''message'', PStr (ustr ''boom''))])]))
             [(ustr ''SpanID'', ustr ''s1''), (ustr ''x-ms-response-time'', ustr ''12'')])
          (PHTTPError (ustr ''500'')) (ustr ''uuid-0'') = BrainServerError (PDict d) \<and>
      map_of d (ustr ''errorDump'')
        = Some (PDict [(ustr ''error'', PDict [(ustr ''message'', PStr (ustr ''boom''))])]) \<and>
      map_of d (ustr ''status'') = Some (PStr (ustr ''Failed'')) \<and>
      map_of d (ustr ''statusCode'') = Some (PInt 500) \<and>
      map_of d (ustr ''elapsed'') = Some (PTimedelta 1500) \<and>
      map_of d (ustr ''exception'') = Some (PHTTPError (ustr ''500'')) \<and>
      map_of d (ustr ''errorCode'') = Some (PStr []) \<and>
      map_of d (ustr ''errorMessage'')
        = Some (PStr (ustr ''Error message: boom Request ID: uuid-0 Span ID: s1'')) \<and>
      map_of d (ustr ''timeTaken'') = Some (PStr (ustr ''12'')))
   \<and> (\<exists>d. handle_and_raise example_repr
          (example_response 502 (ustr ''<html>'') None
             [(ustr ''x-ms-response-time'', ustr ''12'')])
          (PHTTPError (ustr ''502'')) (ustr ''uuid-0'') = BrainServerError (PDict d) \<and>
      map_of d (ustr ''errorDump'') = Some (PStr (ustr ''Unknown server error occurred'')) \<and>
      map_of d (ustr ''status'') = Some (PStr (ustr ''Failed'')) \<and>
      map_of d (ustr ''statusCode'') = Some (PInt 502) \<and>
      map_of d (ustr ''elapsed'') = Some (PTimedelta 1500) \<and>
      map_of d (ustr ''exception'') = Some (PHTTPError (ustr ''502'')) \<and>
      map_of d (ustr ''errorCode'') = Some (PStr []) \<and>
      map_of d (ustr ''errorMessage'')
        = Some (PStr (ustr ''Request failed. Request ID: uuid-0'')) \<and>
      map_of d (ustr ''timeTaken'') = Some (PStr (ustr ''12'')))"
proof (intro conjI)
  show "\<exists>d. handle_and_raise example_repr
          (example_response 400 (ustr ''{...}'')
             (Some (PDict [(ustr ''error'', PDict [(ustr ''code'', PStr (ustr ''E1''))])])) [])
          (PHTTPError (ustr ''400'')) (ustr ''uuid-0'') = BrainServerError (PDict d) \<and>
      map_of d (ustr ''errorDump'')
        = Some (PDict [(ustr ''error'', PDict [(ustr ''code'', PStr (ustr ''E1''))])]) \<and>
      map_of d (ustr ''status'') = Some (PStr (ustr ''Failed'')) \<and>
      map_of d (ustr ''statusCode'') = Some (PInt 400) \<and>
      map_of d (ustr ''elapsed'') = Some (PTimedelta 1500) \<and>
      map_of d (ustr ''exception'') = Some (PHTTPError (ustr ''400'')) \<and>
      map_of d (ustr ''errorCode'')
        = Some (PStr (ustr ''Request failed with error code \"E1\"'')) \<and>
      map_of d (ustr ''errorMessage'')
        = Some (PStr (ustr ''Request failed. Request ID: uuid-0'')) \<and>
      map_of d (ustr ''timeTaken'') = None"
    using handle_and_raise_fields [of example_repr
        "example_response 400 (ustr ''{...}'')
           (Some (PDict [(ustr ''error'', PDict [(ustr ''code'', PStr (ustr ''E1''))])])) []"
        "PHTTPError (ustr ''400'')" "ustr ''uuid-0''"]
    by (simp add: example_response_def py_str_def ustr_def)
next
  show "\<exists>d. handle_and_raise example_repr
          (example_response 500 (ustr ''{...}'')
             (Some (PDict [(ustr ''error'', PDict [(ustr ''message'', PStr (ustr ''boom''))])]))
             [(ustr ''SpanID'', ustr ''s1''), (ustr ''x-ms-response-time'', ustr ''12'')])
          (PHTTPError (ustr ''500'')) (ustr ''uuid-0'') = BrainServerError (PDict d) \<and>
      map_of d (ustr ''errorDump'')
        = Some (PDict [(ustr ''error'', PDict [(ustr ''message'', PStr (ustr ''boom''))])]) \<and>
      map_of d (ustr ''status'') = Some (PStr (ustr ''Failed'')) \<and>
      map_of d (ustr ''statusCode'') = Some (PInt 500) \<and>
      map_of d (ustr ''elapsed'') = Some (PTimedelta 1500) \<and>
      map_of d (ustr ''exception'') = Some (PHTTPError (ustr ''500'')) \<and>
      map_of d (ustr ''errorCode'') = Some (PStr []) \<and>
      map_of d (ustr ''errorMessage'')
        = Some (PStr (ustr ''Error message: boom Request ID: uuid-0 Span ID: s1'')) \<and>
      map_of d (ustr ''timeTaken'') = Some (PStr (ustr ''12''))"
    using handle_and_raise_fields [of example_repr
        "example_response 500 (ustr ''{...}'')
           (Some (PDict [(ustr ''error'', PDict [(ustr ''message'', PStr (ustr ''boom''))])]))
           [(ustr ''SpanID'', ustr ''s1''), (ustr ''x-ms-response-time'', ustr ''12'')]"
        "PHTTPError (ustr ''500'')" "ustr ''uuid-0''"]
    by (simp add: example_response_def py_str_def ustr_def)
next
  show "\<exists>d. handle_and_raise example_repr
          (example_response 502 (ustr ''<html>'') None
             [(ustr ''x-ms-response-time'', ustr ''12'')])
          (PHTTPError (ustr ''502'')) (ustr ''uuid-0'') = BrainServerError (PDict d) \<and>
      map_of d (ustr ''errorDump'') = Some (PStr (ustr ''Unknown server error occurred'')) \<and>
      map_of d (ustr ''status'') = Some (PStr (ustr ''Failed'')) \<and>
      map_of d (ustr ''statusCode'') = Some (PInt 502) \<and>
      map_of d (ustr ''elapsed'') = Some (PTimedelta 1500) \<and>
      map_of d (ustr ''exception'') = Some (PHTTPError (ustr ''502'')) \<and>
      map_of d (ustr ''errorCode'') = Some (PStr []) \<and>
      map_of d (ustr ''errorMessage'')
        = Some (PStr (ustr ''Request failed. Request ID: uuid-0'')) \<and>
      map_of d (ustr ''timeTaken'') = Some (PStr (ustr ''12''))"
    using handle_and_raise_fields [of example_repr
        "example_response 502 (ustr ''<html>'') None
           [(ustr ''x-ms-response-time'', ustr ''12'')]"
        "PHTTPError (ustr ''502'')" "ustr ''uuid-0''"]
    by (simp add: example_response_def py_str_def ustr_def)
qed

text \<open>
  Claim C7. The header dumps that an attempt logs depend on the credential only
  through its last ten characters: two credentials with the same last ten
  characters give the same dumps, all else being equal.
\<close>

theorem header_dump_shows_last_ten_only:
  assumes "drop (length k1 - 10) k1 = drop (length k2 - 10) k2"
  shows "header_dumps (debug_log (snd (try_http_request env (self\<lparr>access_key := k1\<rparr>)
                                         http_method url data hdrs)))
         = header_dumps (debug_log (snd (try_http_request env (self\<lparr>access_key := k2\<rparr>)
                                         http_method url data hdrs)))"
proof -
  have "k1 = [] \<longleftrightarrow> k2 = []"
    using assms last_ten_empty [of k1] last_ten_empty [of k2] by simp
  then show ?thesis
    using assms by (simp add: try_http_request_header_dumps scrub_headers)
qed

text \<open>An instance: two credentials of different length that end alike.\<close>

theorem header_dump_shows_last_ten_only_witness:
  "header_dumps (debug_log (snd (try_http_request (example_env unreachable)
       (example_api\<lparr>access_key := ustr ''first-secret-0123456789''\<rparr>)
       (ustr ''GET'') (ustr ''https://api.example/v2'') None None)))
   = header_dumps (debug_log (snd (try_http_request (example_env unreachable)
       (example_api\<lparr>access_key := ustr ''a-second-secret-0123456789''\<rparr>)
       (ustr ''GET'') (ustr ''https://api.example/v2'') None None)))"
proof -
  have "drop (length (ustr ''first-secret-0123456789'') - 10) (ustr ''first-secret-0123456789'')
      = drop (length (ustr ''a-second-secret-0123456789'') - 10) (ustr ''a-second-secret-0123456789'')"
    by (simp add: ustr_def)
  then show ?thesis
    by (rule header_dump_shows_last_ten_only)
qed

text \<open>
  Claim C8. \<open>update_sim_collection\<close> raises \<open>KeyError\<close> for the field
  \<open>simulatorpackagename\<close> on every input, and leaves the client as it was: nothing
  is sent and nothing is logged by the dispatcher.
\<close>

theorem update_sim_collection_raises_KeyError:
  "update_sim_collection env self sim_package_name collection_id description workspace
     = (Inl (KeyError (ustr ''simulatorpackagename'')), self)"
  by (simp add: update_sim_collection_def format_def UPDATE_SIM_COLLECTION_URL_PATH_TEMPLATE_def
        ustr_def)

text \<open>
  Claim C9 fails as stated: with the purpose action \<open>a\\b\<close> (two backslashes)
  decoding succeeds, and the object built has the keys and the nesting of the
  intended one; only the action differs, it has one backslash.
\<close>

theorem purpose_same_shape_counterexample:
  "json_loads_purpose (example_env unreachable) [97, 92, 92, 98] (ustr ''acme'') (ustr ''b1'') 3 (ustr ''balance'')
     = Inr (PDict [(ustr ''action'', PStr [97, 92, 98]),
                   (ustr ''target'',
                    PDict [(ustr ''workspaceName'', PStr (ustr ''acme'')),
                           (ustr ''brainName'', PStr (ustr ''b1'')),
                           (ustr ''brainVersion'', PStr (ustr ''3'')),
                           (ustr ''conceptName'', PStr (ustr ''balance''))])])
   \<and> shape (PDict [(ustr ''action'', PStr [97, 92, 98]),
                   (ustr ''target'',
                    PDict [(ustr ''workspaceName'', PStr (ustr ''acme'')),
                           (ustr ''brainName'', PStr (ustr ''b1'')),
                           (ustr ''brainVersion'', PStr (ustr ''3'')),
                           (ustr ''conceptName'', PStr (ustr ''balance''))])])
     = shape (spec_purpose [97, 92, 92, 98] (ustr ''acme'') (ustr ''b1'') 3 (ustr ''balance''))"
  by code_simp

text \<open>
  Claim C9, amended. When the purpose action, the workspace id, the brain name or
  the concept name contains a double quote or a backslash, \<open>create_sim_collection\<close>
  and \<open>patch_sim_session\<close> either raise and leave the client as it was, so that no
  request is sent, or call the dispatcher with a \<open>purpose\<close> that is not the object
  holding the five values as passed. What they raise is \<open>JSONDecodeError\<close>, or
  \<open>ValueError\<close> when the brain version or an integer in the text has more digits
  than the interpreter converts, or \<open>RecursionError\<close> when the text opens more
  arrays and objects than the decoder can enter.
\<close>

theorem purpose_is_not_the_values_passed:
  assumes "\<exists>c \<in> set (purpose_action @ workspace_id self @ brain_name @ concept_name).
             c = 34 \<or> c = 92"
  shows
    "(create_sim_collection env self packagename brain_name brain_version concept_name
        purpose_action description cores_per_instance memory_in_gb_per_instance
        start_instance_count min_instance_count max_instance_count auto_scaling
        auto_termination workspace
        \<in> {(Inl JSONDecodeError, self), (Inl ValueError, self), (Inl RecursionError, self)}
      \<or> (\<exists>purpose.
            purpose \<noteq> spec_purpose purpose_action (workspace_id self) brain_name brain_version
                        concept_name
            \<and> create_sim_collection env self packagename brain_name brain_version concept_name
                purpose_action description cores_per_instance memory_in_gb_per_instance
                start_instance_count min_instance_count max_instance_count auto_scaling
                auto_termination workspace
              = post env self
                  (urljoin env (api_url self)
                     (ustr ''/v2/workspaces/'' @ workspacename self workspace
                      @ ustr ''/simulatorpackages/'' @ packagename
                      @ ustr ''/simulatorcollections''))
                  (Some (PDict
                     [(ustr ''purpose'', purpose),
                      (ustr ''description'', opt_str description),
                      (ustr ''resourceGroupName'', PStr []),
                      (ustr ''Subscription'', PStr []),
                      (ustr ''coresPerInstance'', opt_str cores_per_instance),
                      (ustr ''memInGBPerInstance'', opt_str memory_in_gb_per_instance),
                      (ustr ''startInstanceCount'', opt_str start_instance_count),
                      (ustr ''minInstanceCount'', opt_str min_instance_count),
                      (ustr ''maxInstanceCount'', opt_str max_instance_count),
                      (ustr ''autoScaling'', opt_str auto_scaling),
                      (ustr ''autoTermination'', opt_str auto_termination)]))))
     \<and> (patch_sim_session env self session_id brain_name brain_version purpose_action
          concept_name workspace
          \<in> {(Inl JSONDecodeError, self), (Inl ValueError, self), (Inl RecursionError, self)}
      \<or> (\<exists>purpose.
            purpose \<noteq> spec_purpose purpose_action (workspace_id self) brain_name brain_version
                        concept_name
            \<and> patch_sim_session env self session_id brain_name brain_version purpose_action
                concept_name workspace
              = patch env self
                  (urljoin env (gateway_url self)
                     (ustr ''/v2/workspaces/'' @ workspacename self workspace
                      @ ustr ''/simulatorSessions/'' @ session_id))
                  (Some (PDict
                     [(ustr ''purposeOperation'', PStr (ustr ''SetValue'')),
                      (ustr ''purpose'', purpose)]))))"
proof -
  from json_loads_purpose_cases [OF assms, of env brain_version]
  consider
    (raises) x where
      "x = JSONDecodeError \<or> x = ValueError \<or> x = RecursionError"
      "json_loads_purpose env purpose_action (workspace_id self) brain_name brain_version
         concept_name = Inl x"
  | (other) purpose where
      "purpose \<noteq> spec_purpose purpose_action (workspace_id self) brain_name brain_version
                   concept_name"
      "json_loads_purpose env purpose_action (workspace_id self) brain_name brain_version
         concept_name = Inr purpose"
    by blast
  then show ?thesis
  proof cases
    case raises
    then show ?thesis
      by (auto simp add: create_sim_collection_def patch_sim_session_def
            format_create_sim_collection format_patch_sim_sessions)
  next
    case other
    then show ?thesis
      by (auto simp add: create_sim_collection_def patch_sim_session_def
            format_create_sim_collection format_patch_sim_sessions
            intro!: exI [of _ purpose])
  qed
qed

text \<open>
  An instance: a concept name that ends in a double quote.
\<close>

theorem purpose_is_not_the_values_passed_witness:
  "(create_sim_collection (example_env unreachable) example_api (ustr ''pkg'') (ustr ''b1'') 3
        (ustr ''balance\"'') (ustr ''Train'') None None None None None None None None None
      \<in> {(Inl JSONDecodeError, example_api), (Inl ValueError, example_api),
          (Inl RecursionError, example_api)}
    \<or> (\<exists>purpose.
          purpose \<noteq> spec_purpose (ustr ''Train'') (workspace_id example_api) (ustr ''b1'') 3
                      (ustr ''balance\"'')
          \<and> create_sim_collection (example_env unreachable) example_api (ustr ''pkg'')
              (ustr ''b1'') 3 (ustr ''balance\"'') (ustr ''Train'') None None None None None None
              None None None
            = post (example_env unreachable) example_api
                (urljoin (example_env unreachable) (api_url example_api)
                   (ustr ''/v2/workspaces/'' @ workspacename example_api None
                    @ ustr ''/simulatorpackages/'' @ ustr ''pkg''
                    @ ustr ''/simulatorcollections''))
                (Some (PDict
                   [(ustr ''purpose'', purpose),
                    (ustr ''description'', opt_str None),
                    (ustr ''resourceGroupName'', PStr []),
                    (ustr ''Subscription'', PStr []),
                    (ustr ''coresPerInstance'', opt_str None),
                    (ustr ''memInGBPerInstance'', opt_str None),
                    (ustr ''startInstanceCount'', opt_str None),
                    (ustr ''minInstanceCount'', opt_str None),
                    (ustr ''maxInstanceCount'', opt_str None),
                    (ustr ''autoScaling'', opt_str None),
                    (ustr ''autoTermination'', opt_str None)]))))
   \<and> (patch_sim_session (example_env unreachable) example_api (ustr ''s1'') (ustr ''b1'') 3
        (ustr ''Train'') (ustr ''balance\"'') None
        \<in> {(Inl JSONDecodeError, example_api), (Inl ValueError, example_api),
            (Inl RecursionError, example_api)}
    \<or> (\<exists>purpose.
          purpose \<noteq> spec_purpose (ustr ''Train'') (workspace_id example_api) (ustr ''b1'') 3
                      (ustr ''balance\"'')
          \<and> patch_sim_session (example_env unreachable) example_api (ustr ''s1'') (ustr ''b1'') 3
              (ustr ''Train'') (ustr ''balance\"'') None
            = patch (example_env unreachable) example_api
                (urljoin (example_env unreachable) (gateway_url example_api)
                   (ustr ''/v2/workspaces/'' @ workspacename example_api None
                    @ ustr ''/simulatorSessions/'' @ ustr ''s1''))
                (Some (PDict
                   [(ustr ''purposeOperation'', PStr (ustr ''SetValue'')),
                    (ustr ''purpose'', purpose)]))))"
proof -
  have "\<exists>c \<in> set (ustr ''Train'' @ workspace_id example_api @ ustr ''b1'' @ ustr ''balance\"'').
          c = 34 \<or> c = 92"
    by (simp add: ustr_def)
  then show ?thesis
    by (rule purpose_is_not_the_values_passed)
qed


end
